theory Spec2Isabelle
  imports Main "HOL-Library.Sublist" "HOL-Library.Char_ord" "HOL-Library.List_Lexorder"
begin

section \<open>The notebook \<open>sagemaker-notebook.ipynb\<close> as a program over a trace of calls\<close>

text \<open>
  The notebook is a straight-line Python script, cut into cells, that calls into three
  libraries: the SageMaker SDK, boto3 and \<open>json\<close>. None of them belongs to the
  repository. The model keeps the notebook's own text (its literals, the values it
  passes on, its one \<open>try\<close>, its one \<open>for\<close>, its one \<open>assert\<close>) and
  leaves every library call to a \<^emph>\<open>world\<close>: an arbitrary function that answers a call,
  given everything that happened before, with a value or with an exception. The cells
  are run in order, from the first to the last, and a run ends at the first exception
  that is not caught. A run is then the list of calls the notebook issued, each with its
  answer, and the outcome of the last statement executed.
\<close>

subsection \<open>Python values and exceptions\<close>

text \<open>
  The values the notebook builds are strings, integers, \<open>None\<close>, lists and
  dictionaries with string keys. A dictionary is an association list in insertion
  order. What a library hands back (a session, a client, a response) is a value too.
\<close>

datatype pyval =
    PyNone
  | PyStr string
  | PyInt int
  | PyList "pyval list"
  | PyDict "(string \<times> pyval) list"

type_synonym kwargs = "(string \<times> pyval) list"

text \<open>
  \<open>ValueError\<close> stands for any instance of Python's \<open>ValueError\<close> (subclasses
  included: that is what \<open>except ValueError\<close> catches); \<open>OtherException\<close> for an
  instance of any class that is none of the four named ones.
\<close>

datatype py_exn =
    AssertionError
  | ValueError string
  | KeyError string
  | TypeError string
  | OtherException string

subsection \<open>Calls, events and the world\<close>

text \<open>
  One constructor for every library operation the notebook performs, with the
  arguments the notebook passes. The receiver of a method call (\<open>sess\<close>,
  \<open>iam\<close>, \<open>sm_client\<close>, \<open>invoke_client\<close>, \<open>predictor\<close>) is the variable
  of the source and is part of the constructor's name.
\<close>

datatype call =
    Sagemaker_Session kwargs          \<comment> \<open>\<open>sagemaker.Session(...)\<close>\<close>
  | Sess_default_bucket               \<comment> \<open>\<open>sess.default_bucket()\<close>\<close>
  | Get_execution_role                \<comment> \<open>\<open>sagemaker.get_execution_role()\<close>\<close>
  | Boto3_client string               \<comment> \<open>\<open>boto3.client(name)\<close>\<close>
  | Iam_get_role kwargs               \<comment> \<open>\<open>iam.get_role(...)\<close>\<close>
  | Image_uris_retrieve kwargs        \<comment> \<open>\<open>image_uris.retrieve(...)\<close>\<close>
  | Sm_create_model kwargs            \<comment> \<open>\<open>sm_client.create_model(...)\<close>\<close>
  | Sm_create_endpoint_config kwargs  \<comment> \<open>\<open>sm_client.create_endpoint_config(...)\<close>\<close>
  | Sm_create_endpoint kwargs         \<comment> \<open>\<open>sm_client.create_endpoint(...)\<close>\<close>
  | Invoke_endpoint kwargs            \<comment> \<open>\<open>invoke_client.invoke_endpoint(...)\<close>\<close>
  | Json_loads pyval                  \<comment> \<open>\<open>json.loads(body.read().decode())\<close>\<close>
  | HuggingFacePredictor string       \<comment> \<open>\<open>HuggingFacePredictor(endpoint_name)\<close>\<close>
  | Predictor_predict pyval kwargs    \<comment> \<open>\<open>predictor.predict(data, initial_args=...)\<close>\<close>
  | Predictor_delete_model            \<comment> \<open>\<open>predictor.delete_model()\<close>\<close>
  | Predictor_delete_endpoint         \<comment> \<open>\<open>predictor.delete_endpoint()\<close>\<close>

type_synonym event = "call \<times> (py_exn + pyval)"
type_synonym trace = "event list"

text \<open>
  The world: the installed SDK's version string, the answer to every call (it may
  depend on the whole history), the region attribute of a session object and
  \<open>json.dumps\<close>, which is pure and cannot fail on the notebook's payloads.
\<close>

record world =
  sagemaker_version :: string
  respond :: "trace \<Rightarrow> call \<Rightarrow> py_exn + pyval"
  boto_region_name :: "pyval \<Rightarrow> pyval"
  json_dumps :: "pyval \<Rightarrow> string"

subsection \<open>Statements: sequencing, raising, catching, looping\<close>

type_synonym 'a nb = "trace \<Rightarrow> (py_exn + 'a) \<times> trace"

definition ret :: "'a \<Rightarrow> 'a nb" where
  "ret x tr = (Inr x, tr)"

definition raise :: "py_exn \<Rightarrow> 'a nb" where
  "raise e tr = (Inl e, tr)"

text \<open>A statement that raises ends the run: what follows it is not executed.\<close>

definition then_do :: "'a nb \<Rightarrow> ('a \<Rightarrow> 'b nb) \<Rightarrow> 'b nb" where
  "then_do m f tr = (case m tr of (Inl e, tr') \<Rightarrow> (Inl e, tr') | (Inr x, tr') \<Rightarrow> f x tr')"

text \<open>A library call: the world answers, and the call and its answer are recorded.\<close>

definition perform :: "world \<Rightarrow> call \<Rightarrow> pyval nb" where
  "perform w c tr = (respond w tr c, tr @ [(c, respond w tr c)])"

text \<open>\<open>try: m except ValueError: h\<close>.\<close>

definition try_except_ValueError :: "'a nb \<Rightarrow> 'a nb \<Rightarrow> 'a nb" where
  "try_except_ValueError m h tr =
     (case m tr of
        (Inl (ValueError msg), tr') \<Rightarrow> h tr'
      | (Inl e, tr') \<Rightarrow> (Inl e, tr')
      | (Inr x, tr') \<Rightarrow> (Inr x, tr'))"

text \<open>\<open>for x in xs: body\<close>, and \<open>range(n)\<close>.\<close>

fun for_in :: "'a list \<Rightarrow> ('a \<Rightarrow> unit nb) \<Rightarrow> unit nb" where
  "for_in [] body = ret ()"
| "for_in (x # xs) body = then_do (body x) (\<lambda>_. for_in xs body)"

definition py_range :: "nat \<Rightarrow> nat list" where
  "py_range n = [0..<n]"

text \<open>\<open>v[k]\<close> for a string key: \<open>KeyError\<close> on a dictionary without the key,
  \<open>TypeError\<close> on a value that is not a dictionary.\<close>

definition subscript :: "pyval \<Rightarrow> string \<Rightarrow> pyval nb" where
  "subscript v k =
     (case v of
        PyDict kvs \<Rightarrow> (case map_of kvs k of Some x \<Rightarrow> ret x | None \<Rightarrow> raise (KeyError k))
      | _ \<Rightarrow> raise (TypeError ''subscript''))"

text \<open>Python's \<open><\<close> and \<open>>=\<close> on \<open>str\<close>: the first differing character
  decides, by code point; a proper prefix is smaller. (On the bytes of UTF-8 text this
  is the same order.)\<close>

fun str_lt :: "string \<Rightarrow> string \<Rightarrow> bool" where
  "str_lt [] [] = False"
| "str_lt [] (b # bs) = True"
| "str_lt (a # as) [] = False"
| "str_lt (a # as) (b # bs) =
     (if a = b then str_lt as bs else (of_char a :: nat) < of_char b)"

definition str_ge :: "string \<Rightarrow> string \<Rightarrow> bool" where
  "str_ge a b = (\<not> str_lt a b)"

subsection \<open>The cells\<close>

text \<open>
  The first code cell, \<open>%pip install sagemaker --upgrade\<close>, is a shell magic: it
  decides which SDK is installed, that is, the world. \<open>print\<close> and the display of a
  cell's last expression are left out; a library call inside a \<open>print\<close> is kept.
\<close>

text \<open>\<open>assert sagemaker.__version__ >= "2.75.0"\<close>\<close>

definition check_version :: "world \<Rightarrow> unit nb" where
  "check_version w =
     (if str_ge (sagemaker_version w) ''2.75.0'' then ret () else raise AssertionError)"

text \<open>The permissions cell; it leaves \<open>role\<close> and \<open>region\<close> to the later cells.\<close>

definition permissions :: "world \<Rightarrow> (pyval \<times> pyval) nb" where
  "permissions w =
     then_do (perform w (Sagemaker_Session [])) (\<lambda>sess.
     then_do (if sess \<noteq> PyNone then perform w Sess_default_bucket else ret PyNone)
       (\<lambda>sagemaker_session_bucket.
     then_do (try_except_ValueError
                (perform w Get_execution_role)
                (then_do (perform w (Boto3_client ''iam'')) (\<lambda>iam.
                 then_do (perform w (Iam_get_role
                            [(''RoleName'', PyStr ''sagemaker_execution_role'')])) (\<lambda>r.
                 then_do (subscript r ''Role'') (\<lambda>r'.
                 subscript r' ''Arn'')))))
       (\<lambda>role.
     then_do (perform w (Sagemaker_Session
                [(''default_bucket'', sagemaker_session_bucket)])) (\<lambda>sess.
     then_do (perform w (Boto3_client ''sagemaker'')) (\<lambda>sm_client.
     then_do (perform w Sess_default_bucket) (\<lambda>_.
     ret (role, boto_region_name w sess)))))))"

text \<open>\<open>hf_inference_dlc = image_uris.retrieve(...)\<close>\<close>

definition retrieve_kwargs :: "pyval \<Rightarrow> kwargs" where
  "retrieve_kwargs region =
     [(''framework'', PyStr ''huggingface''),
      (''region'', region),
      (''version'', PyStr ''4.12.3''),
      (''image_scope'', PyStr ''inference''),
      (''base_framework_version'', PyStr ''pytorch1.9.1''),
      (''py_version'', PyStr ''py38''),
      (''container_version'', PyStr ''ubuntu20.04''),
      (''instance_type'', PyStr ''ml.c5.xlarge'')]"

definition retrieve_image :: "world \<Rightarrow> pyval \<Rightarrow> pyval nb" where
  "retrieve_image w region = perform w (Image_uris_retrieve (retrieve_kwargs region))"

text \<open>The two model dictionaries and the execution configuration.\<close>

definition englishModel :: "pyval \<Rightarrow> pyval" where
  "englishModel hf_inference_dlc =
     PyDict [(''Image'', hf_inference_dlc),
           (''ContainerHostname'', PyStr ''englishModel''),
           (''Environment'', PyDict
              [(''HF_MODEL_ID'', PyStr ''distilbert-base-uncased-finetuned-sst-2-english''),
               (''HF_TASK'', PyStr ''text-classification'')])]"

definition germanModel :: "pyval \<Rightarrow> pyval" where
  "germanModel hf_inference_dlc =
     PyDict [(''Image'', hf_inference_dlc),
           (''ContainerHostname'', PyStr ''germanModel''),
           (''Environment'', PyDict
              [(''HF_MODEL_ID'', PyStr ''oliverguhr/german-sentiment-bert''),
               (''HF_TASK'', PyStr ''text-classification'')])]"

definition inferenceExecutionConfig :: pyval where
  "inferenceExecutionConfig = PyDict [(''Mode'', PyStr ''Direct'')]"

text \<open>The deployment cell.\<close>

definition deployment_name :: string where
  "deployment_name = ''multi-container-sentiment''"

definition instance_type :: string where
  "instance_type = ''ml.c5.4xlarge''"

definition create_model_kwargs :: "pyval \<Rightarrow> pyval \<Rightarrow> kwargs" where
  "create_model_kwargs role hf_inference_dlc =
     [(''ModelName'', PyStr (deployment_name @ ''-model'')),
      (''InferenceExecutionConfig'', inferenceExecutionConfig),
      (''ExecutionRoleArn'', role),
      (''Containers'', PyList [englishModel hf_inference_dlc, germanModel hf_inference_dlc])]"

definition create_endpoint_config_kwargs :: kwargs where
  "create_endpoint_config_kwargs =
     [(''EndpointConfigName'', PyStr (deployment_name @ ''-config'')),
      (''ProductionVariants'', PyList
         [PyDict [(''VariantName'', PyStr ''AllTraffic''),
                (''ModelName'', PyStr (deployment_name @ ''-model'')),
                (''InitialInstanceCount'', PyInt 1),
                (''InstanceType'', PyStr instance_type)]])]"

definition create_endpoint_kwargs :: kwargs where
  "create_endpoint_kwargs =
     [(''EndpointName'', PyStr (deployment_name @ ''-ep'')),
      (''EndpointConfigName'', PyStr (deployment_name @ ''-config''))]"

definition deploy :: "world \<Rightarrow> pyval \<Rightarrow> pyval \<Rightarrow> unit nb" where
  "deploy w role hf_inference_dlc =
     then_do (perform w (Sm_create_model (create_model_kwargs role hf_inference_dlc))) (\<lambda>_.
     then_do (perform w (Sm_create_endpoint_config create_endpoint_config_kwargs)) (\<lambda>_.
     then_do (perform w (Sm_create_endpoint create_endpoint_kwargs)) (\<lambda>endpoint.
     ret ())))"

text \<open>The payloads.\<close>

definition english_payload :: pyval where
  "english_payload =
     PyDict [(''inputs'',
            PyStr ''This is a great way for saving money and optimizing my resources.'')]"

definition german_payload :: pyval where
  "german_payload =
     PyDict [(''inputs'',
            PyStr ''Das wird uns sehr helfen unsere Ressourcen effizient zu nutzen.'')]"

text \<open>The two cells that send a request with boto3.\<close>

definition invoke_kwargs :: "world \<Rightarrow> string \<Rightarrow> pyval \<Rightarrow> kwargs" where
  "invoke_kwargs w target payload =
     [(''EndpointName'', PyStr (deployment_name @ ''-ep'')),
      (''ContentType'', PyStr ''application/json''),
      (''Accept'', PyStr ''application/json''),
      (''TargetContainerHostname'', PyStr target),
      (''Body'', PyStr (json_dumps w payload))]"

definition invoke_englishModel :: "world \<Rightarrow> pyval nb" where
  "invoke_englishModel w =
     then_do (perform w (Boto3_client ''sagemaker-runtime'')) (\<lambda>invoke_client.
     then_do (perform w (Invoke_endpoint
                (invoke_kwargs w ''englishModel'' english_payload))) (\<lambda>response.
     then_do (subscript response ''Body'') (\<lambda>body.
     perform w (Json_loads body))))"

definition invoke_germanModel :: "world \<Rightarrow> pyval nb" where
  "invoke_germanModel w =
     then_do (perform w (Boto3_client ''sagemaker-runtime'')) (\<lambda>invoke_client.
     then_do (perform w (Invoke_endpoint
                (invoke_kwargs w ''germanModel'' german_payload))) (\<lambda>response.
     then_do (subscript response ''Body'') (\<lambda>body.
     perform w (Json_loads body))))"

text \<open>The cell that sends a request to each container with the predictor.\<close>

definition predict_english :: call where
  "predict_english =
     Predictor_predict english_payload [(''TargetContainerHostname'', PyStr ''englishModel'')]"

definition predict_german :: call where
  "predict_german =
     Predictor_predict german_payload [(''TargetContainerHostname'', PyStr ''germanModel'')]"

definition predictor_requests :: "world \<Rightarrow> unit nb" where
  "predictor_requests w =
     then_do (perform w (HuggingFacePredictor (deployment_name @ ''-ep''))) (\<lambda>predictor.
     then_do (perform w predict_english) (\<lambda>en_res.
     then_do (perform w predict_german) (\<lambda>de_res.
     ret ())))"

text \<open>The load test.\<close>

definition load_test :: "world \<Rightarrow> unit nb" where
  "load_test w =
     for_in (py_range 1000) (\<lambda>i.
       then_do (perform w predict_english) (\<lambda>_.
       then_do (perform w predict_german) (\<lambda>_.
       ret ())))"

text \<open>The last cell.\<close>

definition teardown :: "world \<Rightarrow> unit nb" where
  "teardown w =
     then_do (perform w Predictor_delete_model) (\<lambda>_.
     then_do (perform w Predictor_delete_endpoint) (\<lambda>_.
     ret ()))"

text \<open>The notebook, run from its first code cell to its last.\<close>

definition notebook :: "world \<Rightarrow> unit nb" where
  "notebook w =
     then_do (check_version w) (\<lambda>_.
     then_do (permissions w) (\<lambda>(role, region).
     then_do (retrieve_image w region) (\<lambda>hf_inference_dlc.
     then_do (deploy w role hf_inference_dlc) (\<lambda>_.
     then_do (invoke_englishModel w) (\<lambda>_.
     then_do (invoke_germanModel w) (\<lambda>_.
     then_do (predictor_requests w) (\<lambda>_.
     then_do (load_test w) (\<lambda>_.
     teardown w))))))))"

definition outcome :: "world \<Rightarrow> py_exn + unit" where
  "outcome w = fst (notebook w [])"

definition run_trace :: "world \<Rightarrow> trace" where
  "run_trace w = snd (notebook w [])"

section \<open>What is observed of a run\<close>

subsection \<open>Reading dictionaries and calls\<close>

text \<open>\<open>d.get(k)\<close> on a value: the entry of a dictionary, nothing on any other value.\<close>

definition dict_get :: "pyval \<Rightarrow> string \<Rightarrow> pyval option" where
  "dict_get v k = (case v of PyDict kvs \<Rightarrow> map_of kvs k | _ \<Rightarrow> None)"

text \<open>The data-plane calls are \<open>invoke_endpoint\<close> and \<open>predictor.predict\<close>. The routing
  field of such a call is the entry \<open>TargetContainerHostname\<close> of its keyword arguments,
  respectively of its \<open>initial_args\<close>; its payload is the \<open>Body\<close>, respectively the
  data handed to the predictor.\<close>

definition is_invocation :: "call \<Rightarrow> bool" where
  "is_invocation c =
     (case c of Invoke_endpoint kw \<Rightarrow> True | Predictor_predict d a \<Rightarrow> True | _ \<Rightarrow> False)"

definition routing_field :: "call \<Rightarrow> pyval option" where
  "routing_field c =
     (case c of
        Invoke_endpoint kw \<Rightarrow> map_of kw ''TargetContainerHostname''
      | Predictor_predict d a \<Rightarrow> map_of a ''TargetContainerHostname''
      | _ \<Rightarrow> None)"

definition payload_sent :: "call \<Rightarrow> pyval option" where
  "payload_sent c =
     (case c of
        Invoke_endpoint kw \<Rightarrow> map_of kw ''Body''
      | Predictor_predict d a \<Rightarrow> Some d
      | _ \<Rightarrow> None)"

text \<open>The container hostnames that a \<open>create_model\<close> request declares.\<close>

definition declared_hostnames :: "kwargs \<Rightarrow> pyval option list" where
  "declared_hostnames kw =
     (case map_of kw ''Containers'' of
        Some (PyList ms) \<Rightarrow> map (\<lambda>m. dict_get m ''ContainerHostname'') ms
      | _ \<Rightarrow> [])"

subsection \<open>The calls that occur in the text of the notebook\<close>

text \<open>Every call expression of the notebook, with the values that are only known at run
  time left open.\<close>

definition notebook_call :: "world \<Rightarrow> call \<Rightarrow> bool" where
  "notebook_call w c \<longleftrightarrow>
     c = Sagemaker_Session [] \<or>
     (\<exists>b. c = Sagemaker_Session [(''default_bucket'', b)]) \<or>
     c = Sess_default_bucket \<or>
     c = Get_execution_role \<or>
     c = Boto3_client ''iam'' \<or>
     c = Iam_get_role [(''RoleName'', PyStr ''sagemaker_execution_role'')] \<or>
     c = Boto3_client ''sagemaker'' \<or>
     (\<exists>region. c = Image_uris_retrieve (retrieve_kwargs region)) \<or>
     (\<exists>role dlc. c = Sm_create_model (create_model_kwargs role dlc)) \<or>
     c = Sm_create_endpoint_config create_endpoint_config_kwargs \<or>
     c = Sm_create_endpoint create_endpoint_kwargs \<or>
     c = Boto3_client ''sagemaker-runtime'' \<or>
     c = Invoke_endpoint (invoke_kwargs w ''englishModel'' english_payload) \<or>
     c = Invoke_endpoint (invoke_kwargs w ''germanModel'' german_payload) \<or>
     (\<exists>b. c = Json_loads b) \<or>
     c = HuggingFacePredictor (deployment_name @ ''-ep'') \<or>
     c = predict_english \<or>
     c = predict_german \<or>
     c = Predictor_delete_model \<or>
     c = Predictor_delete_endpoint"

subsection \<open>Assertions about runs\<close>

text \<open>From a trace that satisfies \<open>P\<close>, the statement \<open>m\<close> either returns \<open>x\<close> and
  leaves a trace with \<open>Q x\<close>, or raises \<open>e\<close> and leaves a trace with \<open>E e\<close>.
  Statements are total functions, so one of the two happens.\<close>

definition valid ::
  "(trace \<Rightarrow> bool) \<Rightarrow> 'a nb \<Rightarrow> ('a \<Rightarrow> trace \<Rightarrow> bool) \<Rightarrow> (py_exn \<Rightarrow> trace \<Rightarrow> bool) \<Rightarrow> bool"
  where
  "valid P m Q E =
     (\<forall>tr. P tr \<longrightarrow> (case m tr of (Inl e, tr') \<Rightarrow> E e tr' | (Inr x, tr') \<Rightarrow> Q x tr'))"

text \<open>One pass of the load test's loop body, and what \<open>n\<close> passes leave behind: the calls
  issued are an initial segment of \<open>n\<close> times english-then-german, every request but
  the last one was answered before the next was sent, a run that returns has issued all
  of them, and a run that raises stops at the call that raised.\<close>

definition round_trip :: "world \<Rightarrow> nat \<Rightarrow> unit nb" where
  "round_trip w i =
     then_do (perform w predict_english) (\<lambda>_.
     then_do (perform w predict_german) (\<lambda>_.
     ret ()))"

definition loop_spec :: "nat \<Rightarrow> (py_exn + unit) \<Rightarrow> event list \<Rightarrow> bool" where
  "loop_spec n r evs \<longleftrightarrow>
     prefix (map fst evs) (concat (replicate n [predict_english, predict_german])) \<and>
     (\<forall>i. Suc i < length evs \<longrightarrow> (\<exists>x. snd (evs ! i) = Inr x)) \<and>
     (r = Inr () \<longrightarrow> map fst evs = concat (replicate n [predict_english, predict_german]) \<and>
        (\<forall>ev\<in>set evs. \<exists>x. snd ev = Inr x)) \<and>
     (\<forall>e. r = Inl e \<longrightarrow> evs \<noteq> [] \<and> snd (last evs) = Inl e)"

subsection \<open>Parts of the notebook and of its trace\<close>

text \<open>The cells that follow the deployment, as they are sequenced in the notebook.\<close>

definition serving :: "world \<Rightarrow> unit nb" where
  "serving w =
     then_do (invoke_englishModel w) (\<lambda>_.
     then_do (invoke_germanModel w) (\<lambda>_.
     then_do (predictor_requests w) (\<lambda>_.
     then_do (load_test w) (\<lambda>_.
     teardown w))))"

text \<open>The call expressions of the permissions cell and of the cells after the deployment.\<close>

definition permissions_call :: "call \<Rightarrow> bool" where
  "permissions_call c \<longleftrightarrow>
     c = Sagemaker_Session [] \<or>
     (\<exists>b. c = Sagemaker_Session [(''default_bucket'', b)]) \<or>
     c = Sess_default_bucket \<or>
     c = Get_execution_role \<or>
     c = Boto3_client ''iam'' \<or>
     c = Iam_get_role [(''RoleName'', PyStr ''sagemaker_execution_role'')] \<or>
     c = Boto3_client ''sagemaker''"

definition serving_call :: "world \<Rightarrow> call \<Rightarrow> bool" where
  "serving_call w c \<longleftrightarrow>
     c = Boto3_client ''sagemaker-runtime'' \<or>
     c = Invoke_endpoint (invoke_kwargs w ''englishModel'' english_payload) \<or>
     c = Invoke_endpoint (invoke_kwargs w ''germanModel'' german_payload) \<or>
     (\<exists>b. c = Json_loads b) \<or>
     c = HuggingFacePredictor (deployment_name @ ''-ep'') \<or>
     c = predict_english \<or>
     c = predict_german \<or>
     c = Predictor_delete_model \<or>
     c = Predictor_delete_endpoint"

text \<open>The events of a trace by kind: calls on \<open>sm_client\<close>, role lookups, image
  retrievals, \<open>create_model\<close> requests.\<close>

definition is_sm_call :: "call \<Rightarrow> bool" where
  "is_sm_call c =
     (case c of
        Sm_create_model kw \<Rightarrow> True
      | Sm_create_endpoint_config kw \<Rightarrow> True
      | Sm_create_endpoint kw \<Rightarrow> True
      | _ \<Rightarrow> False)"

definition sm_events :: "trace \<Rightarrow> trace" where
  "sm_events tr = filter (\<lambda>ev. is_sm_call (fst ev)) tr"

definition is_role_lookup :: "call \<Rightarrow> bool" where
  "is_role_lookup c = (case c of Get_execution_role \<Rightarrow> True | Iam_get_role kw \<Rightarrow> True | _ \<Rightarrow> False)"

definition is_retrieve :: "call \<Rightarrow> bool" where
  "is_retrieve c = (case c of Image_uris_retrieve kw \<Rightarrow> True | _ \<Rightarrow> False)"

definition is_create_model :: "call \<Rightarrow> bool" where
  "is_create_model c = (case c of Sm_create_model kw \<Rightarrow> True | _ \<Rightarrow> False)"

definition role_events :: "trace \<Rightarrow> trace" where
  "role_events tr = filter (\<lambda>ev. is_role_lookup (fst ev)) tr"

definition image_events :: "trace \<Rightarrow> trace" where
  "image_events tr = filter (\<lambda>ev. is_retrieve (fst ev)) tr"

definition model_events :: "trace \<Rightarrow> trace" where
  "model_events tr = filter (\<lambda>ev. is_create_model (fst ev)) tr"

text \<open>The three calls of the deployment cell, in the order of the source, and the
  production variants of an endpoint-configuration request.\<close>

definition deployment_calls :: "pyval \<Rightarrow> pyval \<Rightarrow> call list" where
  "deployment_calls role hf_inference_dlc =
     [Sm_create_model (create_model_kwargs role hf_inference_dlc),
      Sm_create_endpoint_config create_endpoint_config_kwargs,
      Sm_create_endpoint create_endpoint_kwargs]"

definition variants :: "kwargs \<Rightarrow> pyval list" where
  "variants kw = (case map_of kw ''ProductionVariants'' of Some (PyList vs) \<Rightarrow> vs | _ \<Rightarrow> [])"

subsection \<open>How far a run has come\<close>

text \<open>All events of a list were answered with a value.\<close>

definition answered :: "trace \<Rightarrow> bool" where
  "answered evs \<longleftrightarrow> (\<forall>ev\<in>set evs. \<exists>x. snd ev = Inr x)"

text \<open>The calls on \<open>sm_client\<close> so far are an initial segment of the deployment's
  three, each sent after the one before it was answered; or all three, answered.\<close>

definition sm_progress :: "pyval \<Rightarrow> pyval \<Rightarrow> trace \<Rightarrow> bool" where
  "sm_progress role dlc tr \<longleftrightarrow>
     prefix (map fst (sm_events tr)) (deployment_calls role dlc) \<and>
     (\<forall>i. Suc i < length (sm_events tr) \<longrightarrow> (\<exists>x. snd (sm_events tr ! i) = Inr x))"

definition sm_done :: "pyval \<Rightarrow> pyval \<Rightarrow> trace \<Rightarrow> bool" where
  "sm_done role dlc tr \<longleftrightarrow>
     map fst (sm_events tr) = deployment_calls role dlc \<and> answered (sm_events tr)"

text \<open>Where the value of \<open>role\<close> comes from: from \<open>get_execution_role\<close>, or, after that
  call raised \<open>ValueError\<close>, from the entry \<open>['Role']['Arn']\<close> of the answer to
  \<open>iam.get_role(RoleName='sagemaker_execution_role')\<close>. In both cases no other lookup
  happened. Where the value of \<open>hf_inference_dlc\<close> comes from: from the one retrieval.\<close>

definition role_from :: "trace \<Rightarrow> pyval \<Rightarrow> bool" where
  "role_from tr role \<longleftrightarrow>
     role_events tr = [(Get_execution_role, Inr role)] \<or>
     (\<exists>msg resp rd.
        role_events tr =
          [(Get_execution_role, Inl (ValueError msg)),
           (Iam_get_role [(''RoleName'', PyStr ''sagemaker_execution_role'')], Inr resp)] \<and>
        dict_get resp ''Role'' = Some rd \<and> dict_get rd ''Arn'' = Some role)"

definition resolved_from :: "trace \<Rightarrow> pyval \<Rightarrow> pyval \<Rightarrow> bool" where
  "resolved_from tr region dlc \<longleftrightarrow>
     image_events tr = [(Image_uris_retrieve (retrieve_kwargs region), Inr dlc)]"

text \<open>The stages of a run: nothing looked up yet; the role known; the image resolved; the
  model requested with this role and this image.\<close>

definition fresh :: "trace \<Rightarrow> bool" where
  "fresh tr \<longleftrightarrow> role_events tr = [] \<and> image_events tr = [] \<and> model_events tr = []"

definition before_deploy :: "trace \<Rightarrow> bool" where
  "before_deploy tr \<longleftrightarrow> model_events tr = [] \<and> length (image_events tr) \<le> 1"

definition permitted :: "pyval \<Rightarrow> trace \<Rightarrow> bool" where
  "permitted role tr \<longleftrightarrow> role_from tr role \<and> image_events tr = [] \<and> model_events tr = []"

definition resolved :: "pyval \<Rightarrow> pyval \<Rightarrow> pyval \<Rightarrow> trace \<Rightarrow> bool" where
  "resolved role region dlc tr \<longleftrightarrow>
     role_from tr role \<and> resolved_from tr region dlc \<and> model_events tr = []"

definition deployed_with :: "pyval \<Rightarrow> pyval \<Rightarrow> pyval \<Rightarrow> trace \<Rightarrow> bool" where
  "deployed_with role region dlc tr \<longleftrightarrow>
     role_from tr role \<and> resolved_from tr region dlc \<and>
     (\<exists>r. model_events tr = [(Sm_create_model (create_model_kwargs role dlc), r)])"

definition provenance :: "trace \<Rightarrow> bool" where
  "provenance tr \<longleftrightarrow>
     before_deploy tr \<or> (\<exists>role region dlc. deployed_with role region dlc tr)"

text \<open>An event is handled if it is the role lookup raising \<open>ValueError\<close>. A trace is quiet
  if each of its events was answered or handled; a run that stopped with \<open>e\<close> has a
  quiet trace (the exception was raised by the notebook's own statement) or a quiet
  trace followed by the one call that raised \<open>e\<close>.\<close>

definition handled :: "event \<Rightarrow> bool" where
  "handled ev = (case ev of (Get_execution_role, Inl (ValueError msg)) \<Rightarrow> True | _ \<Rightarrow> False)"

definition quiet :: "trace \<Rightarrow> bool" where
  "quiet tr \<longleftrightarrow> (\<forall>ev\<in>set tr. (\<exists>x. snd ev = Inr x) \<or> handled ev)"

definition stopped :: "py_exn \<Rightarrow> trace \<Rightarrow> bool" where
  "stopped e tr \<longleftrightarrow> quiet tr \<or> (\<exists>tr0 c. tr = tr0 @ [(c, Inl e)] \<and> quiet tr0)"

text \<open>A trace that ends with the two calls of the last cell, both answered.\<close>

definition torn_down :: "trace \<Rightarrow> bool" where
  "torn_down tr \<longleftrightarrow>
     (\<exists>tr0 a b. tr = tr0 @ [(Predictor_delete_model, Inr a), (Predictor_delete_endpoint, Inr b)])"

subsection \<open>What follows a caught exception, and what a failed lookup ends\<close>

text \<open>
  A trace without a call of \<open>get_execution_role\<close>, and a trace without a
  \<open>ValueError\<close> raised by it.
\<close>

definition clean :: "trace \<Rightarrow> bool" where
  "clean tr \<longleftrightarrow> (\<forall>ev\<in>set tr. fst ev \<noteq> Get_execution_role)"

definition no_value_error :: "trace \<Rightarrow> bool" where
  "no_value_error tr \<longleftrightarrow> (\<forall>ev\<in>set tr. \<not> handled ev)"

text \<open>
  The events of the handler, as a list that starts right after the \<open>ValueError\<close>:
  first \<open>boto3.client('iam')\<close>; if that was answered, next
  \<open>iam.get_role(RoleName='sagemaker_execution_role')\<close>; if that was answered with a
  value that has \<open>['Role']['Arn']\<close>, the run goes on after the \<open>try\<close> with the
  next statement of the cell, \<open>sagemaker.Session(default_bucket=...)\<close>.
\<close>

definition fallback_follows :: "trace \<Rightarrow> bool" where
  "fallback_follows post \<longleftrightarrow>
     (\<exists>a post1. post = (Boto3_client ''iam'', a) # post1 \<and>
        (\<forall>x. a = Inr x \<longrightarrow>
           (\<exists>b post2.
              post1 = (Iam_get_role [(''RoleName'', PyStr ''sagemaker_execution_role'')], b) # post2 \<and>
              (\<forall>resp rd role.
                 b = Inr resp \<and> dict_get resp ''Role'' = Some rd \<and> dict_get rd ''Arn'' = Some role \<longrightarrow>
                 (\<exists>bucket c post3.
                    post2 = (Sagemaker_Session [(''default_bucket'', bucket)], c) # post3)))))"

text \<open>
  The trace is a part without a call of \<open>get_execution_role\<close>, the
  \<open>ValueError\<close> event, and then exactly \<open>post\<close>; the handler ran as far as it
  could; the lookup in IAM gave a role.
\<close>

definition pending :: "trace \<Rightarrow> trace \<Rightarrow> bool" where
  "pending post tr \<longleftrightarrow>
     (\<exists>pre msg. tr = pre @ (Get_execution_role, Inl (ValueError msg)) # post \<and> clean pre)"

definition caught :: "trace \<Rightarrow> bool" where
  "caught tr \<longleftrightarrow> (\<exists>post. pending post tr \<and> clean post \<and> fallback_follows post)"

definition resumed :: "trace \<Rightarrow> bool" where
  "resumed tr \<longleftrightarrow>
     (\<exists>x resp. pending
        [(Boto3_client ''iam'', Inr x),
         (Iam_get_role [(''RoleName'', PyStr ''sagemaker_execution_role'')], Inr resp)] tr)"

definition fallback_ok :: "trace \<Rightarrow> bool" where
  "fallback_ok tr \<longleftrightarrow> no_value_error tr \<or> caught tr"

text \<open>
  The exception that the notebook's own statement raises on the answer \<open>x\<close> of a
  call: the lookup \<open>['Role']['Arn']\<close> on the answer of \<open>iam.get_role\<close> and the
  lookup \<open>['Body']\<close> on the answer of \<open>invoke_endpoint\<close>. A trace is usable if
  no answer in it makes a lookup fail; a run that stopped with \<open>e\<close> has a usable trace,
  or a usable trace followed by the one answer whose lookup raised \<open>e\<close>.
\<close>

definition local_error :: "call \<Rightarrow> pyval \<Rightarrow> py_exn option" where
  "local_error c x =
     (case c of
        Iam_get_role kw \<Rightarrow>
          (case fst (then_do (subscript x ''Role'') (\<lambda>r'. subscript r' ''Arn'') []) of
             Inl e \<Rightarrow> Some e | Inr role \<Rightarrow> None)
      | Invoke_endpoint kw \<Rightarrow>
          (case fst (subscript x ''Body'' []) of Inl e \<Rightarrow> Some e | Inr body \<Rightarrow> None)
      | _ \<Rightarrow> None)"

definition usable :: "trace \<Rightarrow> bool" where
  "usable tr \<longleftrightarrow> (\<forall>c x. (c, Inr x) \<in> set tr \<longrightarrow> local_error c x = None)"

definition broke :: "py_exn \<Rightarrow> trace \<Rightarrow> bool" where
  "broke e tr \<longleftrightarrow>
     usable tr \<or> (\<exists>tr0 c x. tr = tr0 @ [(c, Inr x)] \<and> usable tr0 \<and> local_error c x = Some e)"

definition fetched :: "call \<Rightarrow> pyval \<Rightarrow> trace \<Rightarrow> bool" where
  "fetched c x tr \<longleftrightarrow> (\<exists>tr0. tr = tr0 @ [(c, Inr x)] \<and> usable tr0)"

subsection \<open>Further readings of requests\<close>

text \<open>The two values of the \<open>Mode\<close> parameter, as the comment in the source names
  them.\<close>

definition inference_execution_modes :: "pyval list" where
  "inference_execution_modes = [PyStr ''Direct'', PyStr ''Serial'']"

text \<open>A payload in the form a data-plane call carries it: serialised with
  \<open>json.dumps\<close> as the \<open>Body\<close> of \<open>invoke_endpoint\<close>, as it is for the
  predictor.\<close>

definition payload_as_sent :: "world \<Rightarrow> call \<Rightarrow> pyval \<Rightarrow> pyval option" where
  "payload_as_sent w c payload =
     (case c of
        Invoke_endpoint kw \<Rightarrow> Some (PyStr (json_dumps w payload))
      | Predictor_predict d a \<Rightarrow> Some payload
      | _ \<Rightarrow> None)"

subsection \<open>Version numbers read as numbers\<close>

text \<open>The components of a dotted version string as natural numbers; lists of numbers are
  compared component by component.\<close>

fun split_on :: "char \<Rightarrow> string \<Rightarrow> string list" where
  "split_on d [] = [[]]"
| "split_on d (c # cs) =
     (if c = d then [] # split_on d cs
      else (case split_on d cs of [] \<Rightarrow> [[c]] | p # ps \<Rightarrow> (c # p) # ps))"

definition decimal :: "string \<Rightarrow> nat" where
  "decimal s = foldl (\<lambda>n c. 10 * n + (of_char c - 48)) 0 s"

definition numeric_version :: "string \<Rightarrow> nat list" where
  "numeric_version s = map decimal (split_on CHR ''.'' s)"

subsection \<open>Example worlds\<close>

text \<open>A world in which every call succeeds, with answers of the shape the libraries give;
  one in which the role lookup raises \<open>ValueError\<close>; one in which it raises another
  exception; one with SDK version 2.100.0.\<close>

definition example_role :: pyval where
  "example_role = PyStr ''arn:aws:iam::123456789012:role/notebook''"

definition example_image :: pyval where
  "example_image =
     PyStr ''763104351884.dkr.ecr.us-east-1.amazonaws.com/huggingface-pytorch-inference''"

definition example_fallback_role :: pyval where
  "example_fallback_role = PyStr ''arn:aws:iam::123456789012:role/sagemaker_execution_role''"

definition answer :: "call \<Rightarrow> pyval" where
  "answer c =
     (case c of
        Sess_default_bucket \<Rightarrow> PyStr ''sagemaker-us-east-1-123456789012''
      | Get_execution_role \<Rightarrow> example_role
      | Iam_get_role kw \<Rightarrow>
          PyDict [(''Role'', PyDict [(''Arn'', example_fallback_role)])]
      | Image_uris_retrieve kw \<Rightarrow> example_image
      | Invoke_endpoint kw \<Rightarrow> PyDict [(''Body'', PyStr ''POSITIVE'')]
      | _ \<Rightarrow> PyDict [])"

definition json_text :: "pyval \<Rightarrow> string" where
  "json_text v =
     (case v of
        PyDict [(k, PyStr s)] \<Rightarrow>
          [CHR ''{'', CHR 0x22] @ k @ [CHR 0x22, CHR '':'', CHR '' '', CHR 0x22] @ s
            @ [CHR 0x22, CHR ''}'']
      | _ \<Rightarrow> ''null'')"

definition world_ok :: world where
  "world_ok =
     \<lparr>sagemaker_version = ''2.75.0'',
      respond = (\<lambda>tr c. Inr (answer c)),
      boto_region_name = (\<lambda>sess. PyStr ''us-east-1''),
      json_dumps = json_text\<rparr>"

definition world_no_role :: world where
  "world_no_role =
     world_ok\<lparr>respond := (\<lambda>tr c.
        if c = Get_execution_role
        then Inl (ValueError ''The current AWS identity is not a role'')
        else Inr (answer c))\<rparr>"

definition world_denied :: world where
  "world_denied =
     world_ok\<lparr>respond := (\<lambda>tr c.
        if c = Get_execution_role then Inl (OtherException ''ClientError'')
        else Inr (answer c))\<rparr>"

definition world_2_100 :: world where
  "world_2_100 = world_ok\<lparr>sagemaker_version := ''2.100.0''\<rparr>"

text \<open>
  A world in which \<open>invoke_endpoint\<close> answers without a \<open>Body\<close>, and one in
  which the role lookup raises \<open>ValueError\<close> and \<open>iam.get_role\<close> answers without
  an \<open>Arn\<close>.
\<close>

definition world_no_body :: world where
  "world_no_body =
     world_ok\<lparr>respond := (\<lambda>tr c.
        case c of Invoke_endpoint kw \<Rightarrow> Inr (PyDict []) | _ \<Rightarrow> Inr (answer c))\<rparr>"

definition world_no_arn :: world where
  "world_no_arn =
     world_ok\<lparr>respond := (\<lambda>tr c.
        case c of
          Get_execution_role \<Rightarrow> Inl (ValueError ''The current AWS identity is not a role'')
        | Iam_get_role kw \<Rightarrow> Inr (PyDict [(''Role'', PyDict [])])
        | _ \<Rightarrow> Inr (answer c))\<rparr>"

section \<open>Rules for assertions\<close>

text \<open>
  One rule for each way of building a statement. The rules named \<open>step\<close> are the
  special case of a property that holds before and after each statement.
\<close>

lemma validI:
  assumes "\<And>tr x tr'. P tr \<Longrightarrow> m tr = (Inr x, tr') \<Longrightarrow> Q x tr'"
    and "\<And>tr e tr'. P tr \<Longrightarrow> m tr = (Inl e, tr') \<Longrightarrow> E e tr'"
  shows "valid P m Q E"
  unfolding valid_def using assms by (auto split: prod.splits sum.splits)

lemma validD_ok: "valid P m Q E \<Longrightarrow> P tr \<Longrightarrow> m tr = (Inr x, tr') \<Longrightarrow> Q x tr'"
  unfolding valid_def by fastforce

lemma validD_err: "valid P m Q E \<Longrightarrow> P tr \<Longrightarrow> m tr = (Inl e, tr') \<Longrightarrow> E e tr'"
  unfolding valid_def by fastforce

lemma valid_snd: "valid P m (\<lambda>_. I) (\<lambda>_. I) \<Longrightarrow> P tr \<Longrightarrow> I (snd (m tr))"
  by (cases "m tr"; cases "fst (m tr)") (auto dest: validD_ok validD_err)

lemma valid_ret: "(\<And>tr. P tr \<Longrightarrow> Q x tr) \<Longrightarrow> valid P (ret x) Q E"
  by (rule validI) (auto simp: ret_def)

lemma valid_raise: "(\<And>tr. P tr \<Longrightarrow> E e tr) \<Longrightarrow> valid P (raise e) Q E"
  by (rule validI) (auto simp: raise_def)

lemma valid_then:
  assumes "valid P m R E" and "\<And>x. valid (R x) (f x) Q E"
  shows "valid P (then_do m f) Q E"
proof (rule validI)
  fix tr x tr' assume P: "P tr" and run: "then_do m f tr = (Inr x, tr')"
  then obtain y t where m: "m tr = (Inr y, t)" and f: "f y t = (Inr x, tr')"
    by (auto simp: then_do_def split: prod.splits sum.splits)
  from validD_ok[OF assms(1) P m] have "R y t" .
  from validD_ok[OF assms(2) this f] show "Q x tr'" .
next
  fix tr e tr' assume P: "P tr" and run: "then_do m f tr = (Inl e, tr')"
  then consider "m tr = (Inl e, tr')" | y t where "m tr = (Inr y, t)" "f y t = (Inl e, tr')"
    by (auto simp: then_do_def split: prod.splits sum.splits)
  then show "E e tr'"
  proof cases
    case 1 then show ?thesis using validD_err[OF assms(1) P] by simp
  next
    case 2
    from validD_ok[OF assms(1) P 2(1)] have "R y t" .
    from validD_err[OF assms(2) this 2(2)] show ?thesis .
  qed
qed

lemma valid_perform:
  assumes "\<And>tr x. P tr \<Longrightarrow> respond w tr c = Inr x \<Longrightarrow> Q x (tr @ [(c, Inr x)])"
    and "\<And>tr e. P tr \<Longrightarrow> respond w tr c = Inl e \<Longrightarrow> E e (tr @ [(c, Inl e)])"
  shows "valid P (perform w c) Q E"
  by (rule validI) (auto simp: perform_def assms)

lemma valid_weaken:
  assumes "valid P m Q E" and "\<And>tr. P' tr \<Longrightarrow> P tr"
    and "\<And>x tr. Q x tr \<Longrightarrow> Q' x tr" and "\<And>e tr. E e tr \<Longrightarrow> E' e tr"
  shows "valid P' m Q' E'"
  using assms unfolding valid_def by (fastforce split: prod.splits sum.splits)

lemma valid_try:
  assumes "valid P m Q (\<lambda>e tr. case e of ValueError msg \<Rightarrow> R tr | _ \<Rightarrow> E e tr)"
    and "valid R h Q E"
  shows "valid P (try_except_ValueError m h) Q E"
proof (rule validI)
  fix tr x tr' assume P: "P tr" and run: "try_except_ValueError m h tr = (Inr x, tr')"
  then consider "m tr = (Inr x, tr')" | msg t where "m tr = (Inl (ValueError msg), t)" "h t = (Inr x, tr')"
    by (auto simp: try_except_ValueError_def split: prod.splits sum.splits py_exn.splits)
  then show "Q x tr'"
  proof cases
    case 1 then show ?thesis using validD_ok[OF assms(1) P] by simp
  next
    case 2
    from validD_err[OF assms(1) P 2(1)] have "R t" by simp
    from validD_ok[OF assms(2) this 2(2)] show ?thesis .
  qed
next
  fix tr e tr' assume P: "P tr" and run: "try_except_ValueError m h tr = (Inl e, tr')"
  then consider "m tr = (Inl e, tr')" "\<forall>msg. e \<noteq> ValueError msg"
    | msg t where "m tr = (Inl (ValueError msg), t)" "h t = (Inl e, tr')"
    by (auto simp: try_except_ValueError_def split: prod.splits sum.splits py_exn.splits)
  then show "E e tr'"
  proof cases
    case 1 then show ?thesis using validD_err[OF assms(1) P 1(1)] by (cases e) simp_all
  next
    case 2
    from validD_err[OF assms(1) P 2(1)] have "R t" by simp
    from validD_err[OF assms(2) this 2(2)] show ?thesis .
  qed
qed

lemma valid_for:
  assumes "\<And>x. valid I (body x) (\<lambda>_. I) E"
  shows "valid I (for_in xs body) (\<lambda>_. I) E"
proof (induction xs)
  case Nil show ?case by (simp add: valid_ret)
next
  case (Cons x xs)
  show ?case by (simp, rule valid_then[OF assms]) (rule Cons)
qed

lemma valid_subscript:
  assumes "\<And>tr x. P tr \<Longrightarrow> Q x tr" and "\<And>tr e. P tr \<Longrightarrow> E e tr"
  shows "valid P (subscript v k) Q E"
  by (rule validI) (auto simp: subscript_def ret_def raise_def assms split: pyval.splits option.splits)

lemma valid_subscript_get:
  assumes "\<And>tr x. P tr \<Longrightarrow> dict_get v k = Some x \<Longrightarrow> Q x tr" and "\<And>tr e. P tr \<Longrightarrow> E e tr"
  shows "valid P (subscript v k) Q E"
  by (rule validI)
    (auto simp: subscript_def ret_def raise_def dict_get_def assms split: pyval.splits option.splits)

lemma valid_subscript_cases:
  assumes "\<And>tr x. P tr \<Longrightarrow> dict_get v k = Some x \<Longrightarrow> Q x tr"
    and "\<And>tr e. P tr \<Longrightarrow> dict_get v k = None \<Longrightarrow> E e tr"
  shows "valid P (subscript v k) Q E"
  by (rule validI)
    (auto simp: subscript_def ret_def raise_def dict_get_def assms split: pyval.splits option.splits)

lemma valid_pure:
  assumes "\<And>tr. m tr = (fst (m []), tr)"
    and "\<And>tr x. P tr \<Longrightarrow> fst (m []) = Inr x \<Longrightarrow> Q x tr"
    and "\<And>tr e. P tr \<Longrightarrow> fst (m []) = Inl e \<Longrightarrow> E e tr"
  shows "valid P m Q E"
proof (rule validI)
  fix tr x tr' assume "P tr" "m tr = (Inr x, tr')"
  with assms(1)[of tr] assms(2)[of tr x] show "Q x tr'" by simp
next
  fix tr e tr' assume "P tr" "m tr = (Inl e, tr')"
  with assms(1)[of tr] assms(3)[of tr e] show "E e tr'" by simp
qed

lemma valid_if: "valid P a Q E \<Longrightarrow> valid P b Q E \<Longrightarrow> valid P (if c then a else b) Q E"
  by simp

lemma valid_case_prod: "(\<And>a b. valid P (f a b) Q E) \<Longrightarrow> valid P (case_prod f p) Q E"
  by (cases p) simp

lemma valid_trivial: "(\<And>x tr. Q x tr) \<Longrightarrow> (\<And>e tr. E e tr) \<Longrightarrow> valid P m Q E"
  by (rule validI)

lemma step_then:
  "valid I m (\<lambda>_. I) E \<Longrightarrow> (\<And>x. valid I (f x) (\<lambda>_. I) E) \<Longrightarrow> valid I (then_do m f) (\<lambda>_. I) E"
  by (rule valid_then)

lemma step_perform:
  "(\<And>tr x. I tr \<Longrightarrow> I (tr @ [(c, Inr x)])) \<Longrightarrow> (\<And>tr e. I tr \<Longrightarrow> E e (tr @ [(c, Inl e)]))
   \<Longrightarrow> valid I (perform w c) (\<lambda>_. I) E"
  by (rule valid_perform) auto

lemma step_ret: "valid I (ret x) (\<lambda>_. I) E"
  by (rule valid_ret)

lemma step_raise: "(\<And>tr. I tr \<Longrightarrow> E e tr) \<Longrightarrow> valid I (raise e) (\<lambda>_. I) E"
  by (rule valid_raise)

lemma step_subscript: "(\<And>tr e. I tr \<Longrightarrow> E e tr) \<Longrightarrow> valid I (subscript v k) (\<lambda>_. I) E"
  by (rule valid_subscript)

lemma step_try:
  "valid I m (\<lambda>_. I) (\<lambda>e tr. case e of ValueError msg \<Rightarrow> I tr | _ \<Rightarrow> E e tr)
   \<Longrightarrow> valid I h (\<lambda>_. I) E \<Longrightarrow> valid I (try_except_ValueError m h) (\<lambda>_. I) E"
  by (rule valid_try)

lemmas step_rules = step_then step_perform step_ret step_raise step_subscript step_try
  valid_for valid_if valid_case_prod

section \<open>Lemmas about the notebook\<close>

subsection \<open>Every call of a run is written in the notebook\<close>

text \<open>
  A property of traces that survives every call the notebook can issue holds of the
  trace of every run, whether the run completes or not.
\<close>

lemmas cell_defs = check_version_def permissions_def retrieve_image_def deploy_def
  invoke_englishModel_def invoke_germanModel_def predictor_requests_def load_test_def
  teardown_def

lemma notebook_call_intros:
  "notebook_call w (Sagemaker_Session [])"
  "notebook_call w (Sagemaker_Session [(''default_bucket'', b)])"
  "notebook_call w Sess_default_bucket"
  "notebook_call w Get_execution_role"
  "notebook_call w (Boto3_client ''iam'')"
  "notebook_call w (Iam_get_role [(''RoleName'', PyStr ''sagemaker_execution_role'')])"
  "notebook_call w (Boto3_client ''sagemaker'')"
  "notebook_call w (Image_uris_retrieve (retrieve_kwargs region))"
  "notebook_call w (Sm_create_model (create_model_kwargs role dlc))"
  "notebook_call w (Sm_create_endpoint_config create_endpoint_config_kwargs)"
  "notebook_call w (Sm_create_endpoint create_endpoint_kwargs)"
  "notebook_call w (Boto3_client ''sagemaker-runtime'')"
  "notebook_call w (Invoke_endpoint (invoke_kwargs w ''englishModel'' english_payload))"
  "notebook_call w (Invoke_endpoint (invoke_kwargs w ''germanModel'' german_payload))"
  "notebook_call w (Json_loads body)"
  "notebook_call w (HuggingFacePredictor (deployment_name @ ''-ep''))"
  "notebook_call w predict_english"
  "notebook_call w predict_german"
  "notebook_call w Predictor_delete_model"
  "notebook_call w Predictor_delete_endpoint"
  unfolding notebook_call_def by blast+

lemma notebook_invariant:
  assumes "\<And>tr c r. I tr \<Longrightarrow> notebook_call w c \<Longrightarrow> I (tr @ [(c, r)])"
  shows "valid I (notebook w) (\<lambda>_. I) (\<lambda>_. I)"
  unfolding notebook_def cell_defs
  by (intro step_rules) (simp_all add: assms notebook_call_intros split: py_exn.splits)

lemma run_calls: "(c, r) \<in> set (run_trace w) \<Longrightarrow> notebook_call w c"
proof -
  have "valid (\<lambda>tr. \<forall>ev\<in>set tr. notebook_call w (fst ev)) (notebook w)
          (\<lambda>_ tr. \<forall>ev\<in>set tr. notebook_call w (fst ev)) (\<lambda>_ tr. \<forall>ev\<in>set tr. notebook_call w (fst ev))"
    by (rule notebook_invariant) auto
  from valid_snd[OF this, of "[]"] show "(c, r) \<in> set (run_trace w) \<Longrightarrow> notebook_call w c"
    by (auto simp: run_trace_def)
qed

subsection \<open>The version check\<close>

text \<open>
  \<open>str_lt\<close> is the lexicographic order on strings by character code.
\<close>

lemma str_lt_iff: "str_lt a b \<longleftrightarrow> a < b"
  by (induction a b rule: str_lt.induct) (auto simp: less_char_def)

lemma check_version_cases:
  "check_version w tr = (if ''2.75.0'' \<le> sagemaker_version w then (Inr (), tr) else (Inl AssertionError, tr))"
  by (simp add: check_version_def str_ge_def str_lt_iff ret_def raise_def not_less)

lemma then_do_ret: "then_do (ret x) f = f x"
  by (rule ext) (simp add: then_do_def ret_def)

lemma then_do_raise: "then_do (raise e) f = raise e"
  by (rule ext) (simp add: then_do_def raise_def)

lemma notebook_stops: "\<not> ''2.75.0'' \<le> sagemaker_version w \<Longrightarrow> notebook w [] = (Inl AssertionError, [])"
  by (simp add: notebook_def check_version_def str_ge_def str_lt_iff not_less then_do_raise raise_def)

lemma notebook_starts:
  assumes "''2.75.0'' \<le> sagemaker_version w"
  shows "snd (notebook w []) \<noteq> []"
proof -
  define rest where "rest = (\<lambda>sess. then_do (if sess \<noteq> PyNone then perform w Sess_default_bucket else ret PyNone))"
  have "valid (\<lambda>tr. True) (notebook w) (\<lambda>_ tr. tr \<noteq> []) (\<lambda>_ tr. tr \<noteq> [])"
    using assms unfolding notebook_def cell_defs
    apply (simp add: str_ge_def str_lt_iff not_less then_do_ret)
    apply (rule valid_then[where R="\<lambda>_ tr. tr \<noteq> []"])
    apply (rule valid_then[where R="\<lambda>_ tr. tr \<noteq> []"])
      apply (rule valid_perform; simp)
     apply (intro step_rules; simp split: py_exn.splits)
    apply (intro step_rules; simp split: py_exn.splits)
    done
  then show ?thesis by (rule valid_snd) simp
qed

lemma numeric_version_examples:
  "numeric_version ''2.75.0'' = [2, 75, 0]" "numeric_version ''2.100.0'' = [2, 100, 0]"
  by (simp_all add: numeric_version_def decimal_def)

subsection \<open>The load-test loop\<close>

lemma load_test_round_trip: "load_test w = for_in (py_range 1000) (round_trip w)"
  unfolding load_test_def round_trip_def ..

lemma round_trip_cases:
  "round_trip w i tr =
     (case respond w tr predict_english of
        Inl e \<Rightarrow> (Inl e, tr @ [(predict_english, Inl e)])
      | Inr x \<Rightarrow>
          (case respond w (tr @ [(predict_english, Inr x)]) predict_german of
             Inl e \<Rightarrow> (Inl e, tr @ [(predict_english, Inr x), (predict_german, Inl e)])
           | Inr y \<Rightarrow> (Inr (), tr @ [(predict_english, Inr x), (predict_german, Inr y)])))"
  by (simp add: round_trip_def then_do_def perform_def ret_def split: sum.splits)

lemma for_in_round_trip:
  "for_in xs (round_trip w) tr = (r, tr') \<Longrightarrow> \<exists>evs. tr' = tr @ evs \<and> loop_spec (length xs) r evs"
proof (induction xs arbitrary: tr)
  case Nil
  then show ?case by (auto simp: ret_def loop_spec_def)
next
  case (Cons x xs)
  have step: "for_in (x # xs) (round_trip w) tr =
      (case round_trip w x tr of (Inl e, t) \<Rightarrow> (Inl e, t)
       | (Inr u, t) \<Rightarrow> for_in xs (round_trip w) t)"
    by (simp add: then_do_def)
  note run = Cons.prems[unfolded step round_trip_cases[of w x tr]]
  show ?case
  proof (cases "respond w tr predict_english")
    case (Inl e)
    with run have "r = Inl e" "tr' = tr @ [(predict_english, Inl e)]"
      by auto
    then show ?thesis by (auto simp: loop_spec_def)
  next
    case a: (Inr a)
    show ?thesis
    proof (cases "respond w (tr @ [(predict_english, Inr a)]) predict_german")
      case (Inl e)
      with a run have "r = Inl e"
        "tr' = tr @ [(predict_english, Inr a), (predict_german, Inl e)]"
        by auto
      then show ?thesis by (auto simp: loop_spec_def less_Suc_eq)
    next
      case b: (Inr b)
      with a run have
        "for_in xs (round_trip w) (tr @ [(predict_english, Inr a), (predict_german, Inr b)]) = (r, tr')"
        by auto
      from Cons.IH[OF this] obtain evs where
        evs: "tr' = tr @ [(predict_english, Inr a), (predict_german, Inr b)] @ evs"
        and spec: "loop_spec (length xs) r evs" by auto
      have "loop_spec (length (x # xs)) r ([(predict_english, Inr a), (predict_german, Inr b)] @ evs)"
        using spec unfolding loop_spec_def
        by (auto simp: nth_Cons split: nat.splits)
      with evs show ?thesis by blast
    qed
  qed
qed

lemma alternating_nth:
  "i < 2 * n \<Longrightarrow> concat (replicate n [a, b]) ! i = (if even i then a else b)"
proof (induction n arbitrary: i)
  case 0
  then show ?case by simp
next
  case (Suc n)
  show ?case
  proof (cases i)
    case 0
    then show ?thesis by simp
  next
    case i: (Suc j)
    show ?thesis
    proof (cases j)
      case 0
      with i show ?thesis by simp
    next
      case (Suc k)
      with i Suc.prems have "k < 2 * n" by simp
      from Suc.IH[OF this] i Suc show ?thesis by simp
    qed
  qed
qed

lemma alternating_count:
  assumes "P a" and "\<not> P b"
  shows "length (filter P (concat (replicate n [a, b]))) = n"
    and "length (filter P (concat (replicate n [b, a]))) = n"
  using assms by (induction n) simp_all

lemma routing_predict:
  "routing_field predict_english = Some (PyStr ''englishModel'')"
  "routing_field predict_german = Some (PyStr ''germanModel'')"
  by (simp_all add: routing_field_def predict_english_def predict_german_def)

subsection \<open>The notebook by stages\<close>

text \<open>
  The notebook is the version check, the permissions cell, the image retrieval, the
  deployment and the cells after it; an assertion about a run is assembled from one
  assertion for each stage.
\<close>

lemma notebook_serving:
  "notebook w =
     then_do (check_version w) (\<lambda>_.
     then_do (permissions w) (\<lambda>(role, region).
     then_do (retrieve_image w region) (\<lambda>hf_inference_dlc.
     then_do (deploy w role hf_inference_dlc) (\<lambda>_.
     serving w))))"
  unfolding notebook_def serving_def ..

lemma notebook_stages:
  assumes "valid Pstart (check_version w) (\<lambda>_. Pchecked) E"
    and "valid Pchecked (permissions w) (\<lambda>(role, region). Ppermitted role region) E"
    and "\<And>role region. valid (Ppermitted role region) (retrieve_image w region) (Presolved role region) E"
    and "\<And>role region dlc. valid (Presolved role region dlc) (deploy w role dlc) (\<lambda>_. Pdeployed role region dlc) E"
    and "\<And>role region dlc. valid (Pdeployed role region dlc) (serving w) (\<lambda>_. Q) E"
  shows "valid Pstart (notebook w) (\<lambda>_. Q) E"
proof -
  have rest: "valid (Ppermitted role region)
      (then_do (retrieve_image w region) (\<lambda>dlc. then_do (deploy w role dlc) (\<lambda>_. serving w)))
      (\<lambda>_. Q) E" for role region
    by (rule valid_then[OF assms(3)], rule valid_then[OF assms(4)], rule assms(5))
  have "valid (case x of (role, region) \<Rightarrow> Ppermitted role region)
      (case x of (role, region) \<Rightarrow>
         then_do (retrieve_image w region) (\<lambda>dlc. then_do (deploy w role dlc) (\<lambda>_. serving w)))
      (\<lambda>_. Q) E" for x
    by (cases x) (simp add: rest)
  then show ?thesis
    unfolding notebook_serving
    by (intro valid_then[OF assms(1)] valid_then[OF assms(2)])
qed

lemma check_version_valid:
  assumes "\<And>tr. P tr \<Longrightarrow> Q tr" and "\<And>tr. P tr \<Longrightarrow> E AssertionError tr"
  shows "valid P (check_version w) (\<lambda>_. Q) E"
  unfolding check_version_def using assms by (auto intro!: valid_ret valid_raise)

lemma permissions_call_intros:
  "permissions_call (Sagemaker_Session [])"
  "permissions_call (Sagemaker_Session [(''default_bucket'', b)])"
  "permissions_call Sess_default_bucket"
  "permissions_call Get_execution_role"
  "permissions_call (Boto3_client ''iam'')"
  "permissions_call (Iam_get_role [(''RoleName'', PyStr ''sagemaker_execution_role'')])"
  "permissions_call (Boto3_client ''sagemaker'')"
  unfolding permissions_call_def by blast+

lemma serving_call_intros:
  "serving_call w (Boto3_client ''sagemaker-runtime'')"
  "serving_call w (Invoke_endpoint (invoke_kwargs w ''englishModel'' english_payload))"
  "serving_call w (Invoke_endpoint (invoke_kwargs w ''germanModel'' german_payload))"
  "serving_call w (Json_loads body)"
  "serving_call w (HuggingFacePredictor (deployment_name @ ''-ep''))"
  "serving_call w predict_english"
  "serving_call w predict_german"
  "serving_call w Predictor_delete_model"
  "serving_call w Predictor_delete_endpoint"
  unfolding serving_call_def by blast+

lemma permissions_keeps:
  assumes "\<And>tr c r. I tr \<Longrightarrow> permissions_call c \<Longrightarrow> I (tr @ [(c, r)])"
  shows "valid I (permissions w) (\<lambda>_. I) (\<lambda>_. I)"
  unfolding permissions_def
  by (intro step_rules) (simp_all add: assms permissions_call_intros split: py_exn.splits)

lemma serving_keeps:
  assumes "\<And>tr c r. I tr \<Longrightarrow> serving_call w c \<Longrightarrow> I (tr @ [(c, r)])"
  shows "valid I (serving w) (\<lambda>_. I) (\<lambda>_. I)"
  unfolding serving_def invoke_englishModel_def invoke_germanModel_def predictor_requests_def
    load_test_def teardown_def
  by (intro step_rules) (simp_all add: assms serving_call_intros)

subsection \<open>The calls of the deployment\<close>

lemma deploy_events:
  assumes "deploy w role dlc tr = (r, tr')"
  shows "\<exists>evs. tr' = tr @ evs \<and>
     prefix (map fst evs) (deployment_calls role dlc) \<and>
     (\<forall>i. Suc i < length evs \<longrightarrow> (\<exists>x. snd (evs ! i) = Inr x)) \<and>
     (r = Inr () \<longrightarrow> map fst evs = deployment_calls role dlc \<and> answered evs) \<and>
     (\<forall>e. r = Inl e \<longrightarrow> evs \<noteq> [] \<and> snd (last evs) = Inl e)"
  using assms
  by (auto simp: deploy_def then_do_def perform_def ret_def deployment_calls_def answered_def
      less_Suc_eq split: sum.splits)

lemma not_sm_call:
  "permissions_call c \<Longrightarrow> \<not> is_sm_call c"
  "serving_call w c \<Longrightarrow> \<not> is_sm_call c"
  "\<not> is_sm_call (Image_uris_retrieve kw)"
  by (auto simp: permissions_call_def serving_call_def is_sm_call_def predict_english_def
      predict_german_def)

lemma sm_done_progress: "sm_done role dlc tr \<Longrightarrow> sm_progress role dlc tr"
  by (auto simp: sm_done_def sm_progress_def answered_def)

lemma sm_events_snoc:
  "sm_events (tr @ [(c, r)]) = (if is_sm_call c then sm_events tr @ [(c, r)] else sm_events tr)"
  by (simp add: sm_events_def)

lemma deploy_sm:
  "valid (\<lambda>tr. sm_events tr = []) (deploy w role dlc) (\<lambda>_. sm_done role dlc) (\<lambda>_. sm_progress role dlc)"
  unfolding deploy_def
  apply (rule valid_then[where R="\<lambda>_ tr. \<exists>a. sm_events tr = [(Sm_create_model (create_model_kwargs role dlc), Inr a)]"])
   apply (rule valid_perform)
    apply (simp add: sm_events_snoc is_sm_call_def)
   apply (simp add: sm_events_snoc is_sm_call_def sm_progress_def deployment_calls_def)
  apply (rule valid_then[where R="\<lambda>_ tr. \<exists>a b. sm_events tr = [(Sm_create_model (create_model_kwargs role dlc), Inr a), (Sm_create_endpoint_config create_endpoint_config_kwargs, Inr b)]"])
   apply (rule valid_perform)
    apply (auto simp add: sm_events_snoc is_sm_call_def)[1]
   apply (auto simp add: sm_events_snoc is_sm_call_def sm_progress_def deployment_calls_def less_Suc_eq)[1]
  apply (rule valid_then[where R="\<lambda>_. sm_done role dlc"])
   apply (rule valid_perform)
    apply (auto simp add: sm_events_snoc is_sm_call_def sm_done_def deployment_calls_def answered_def)[1]
   apply (auto simp add: sm_events_snoc is_sm_call_def sm_progress_def deployment_calls_def less_Suc_eq nth_Cons split: nat.splits)[1]
  apply (rule valid_ret)
  apply assumption
  done

lemma notebook_sm:
  "valid (\<lambda>tr. tr = []) (notebook w) (\<lambda>_ tr. \<exists>role dlc. sm_done role dlc tr)
     (\<lambda>_ tr. \<exists>role dlc. sm_progress role dlc tr)"
proof (rule notebook_stages[where
      Pchecked = "\<lambda>tr. sm_events tr = []" and
      Ppermitted = "\<lambda>_ _ tr. sm_events tr = []" and
      Presolved = "\<lambda>_ _ _ tr. sm_events tr = []" and
      Pdeployed = "\<lambda>role _ dlc. sm_done role dlc"])
  have none: "sm_events tr = [] \<Longrightarrow> \<exists>role dlc. sm_progress role dlc tr" for tr
    by (simp add: sm_progress_def)
  show "valid (\<lambda>tr. tr = []) (check_version w) (\<lambda>_ tr. sm_events tr = [])
     (\<lambda>_ tr. \<exists>role dlc. sm_progress role dlc tr)"
    by (rule check_version_valid) (simp_all add: sm_events_def sm_progress_def)
  show "valid (\<lambda>tr. sm_events tr = []) (permissions w)
     (\<lambda>(role, region) tr. sm_events tr = []) (\<lambda>_ tr. \<exists>role dlc. sm_progress role dlc tr)"
    by (rule valid_weaken[OF permissions_keeps[where I="\<lambda>tr. sm_events tr = []"]])
      (auto simp: sm_events_snoc not_sm_call none)
  show "valid (\<lambda>tr. sm_events tr = []) (retrieve_image w region) (\<lambda>_ tr. sm_events tr = [])
     (\<lambda>_ tr. \<exists>role dlc. sm_progress role dlc tr)" for region
    unfolding retrieve_image_def
    by (rule valid_perform) (simp_all add: sm_events_snoc not_sm_call none)
  show "valid (\<lambda>tr. sm_events tr = []) (deploy w role dlc) (\<lambda>_. sm_done role dlc)
     (\<lambda>_ tr. \<exists>role dlc. sm_progress role dlc tr)" for role dlc
    by (rule valid_weaken[OF deploy_sm]) auto
  show "valid (sm_done role dlc) (serving w) (\<lambda>_ tr. \<exists>role dlc. sm_done role dlc tr)
     (\<lambda>_ tr. \<exists>role dlc. sm_progress role dlc tr)" for role dlc
  proof (rule valid_weaken[OF serving_keeps[where I="sm_done role dlc"]])
    show "sm_done role dlc (tr @ [(c, r)])" if "sm_done role dlc tr" "serving_call w c" for tr c r
      using that by (simp add: sm_done_def sm_events_snoc not_sm_call)
  qed (auto intro: sm_done_progress)
qed

subsection \<open>Where the role and the image of the model come from\<close>

lemma events_snoc:
  "role_events (tr @ [(c, r)]) = (if is_role_lookup c then role_events tr @ [(c, r)] else role_events tr)"
  "image_events (tr @ [(c, r)]) = (if is_retrieve c then image_events tr @ [(c, r)] else image_events tr)"
  "model_events (tr @ [(c, r)]) = (if is_create_model c then model_events tr @ [(c, r)] else model_events tr)"
  by (simp_all add: role_events_def image_events_def model_events_def)

lemma kinds [simp]:
  "is_role_lookup Get_execution_role" "is_role_lookup (Iam_get_role kw)"
  "\<not> is_role_lookup (Sagemaker_Session kw)" "\<not> is_role_lookup Sess_default_bucket"
  "\<not> is_role_lookup (Boto3_client n)" "\<not> is_role_lookup (Image_uris_retrieve kw)"
  "\<not> is_role_lookup (Sm_create_model kw)" "\<not> is_role_lookup (Sm_create_endpoint_config kw)"
  "\<not> is_role_lookup (Sm_create_endpoint kw)"
  "is_retrieve (Image_uris_retrieve kw)"
  "\<not> is_retrieve Get_execution_role" "\<not> is_retrieve (Iam_get_role kw)"
  "\<not> is_retrieve (Sagemaker_Session kw)" "\<not> is_retrieve Sess_default_bucket"
  "\<not> is_retrieve (Boto3_client n)"
  "\<not> is_retrieve (Sm_create_model kw)" "\<not> is_retrieve (Sm_create_endpoint_config kw)"
  "\<not> is_retrieve (Sm_create_endpoint kw)"
  "is_create_model (Sm_create_model kw)"
  "\<not> is_create_model Get_execution_role" "\<not> is_create_model (Iam_get_role kw)"
  "\<not> is_create_model (Sagemaker_Session kw)" "\<not> is_create_model Sess_default_bucket"
  "\<not> is_create_model (Boto3_client n)"
  "\<not> is_create_model (Image_uris_retrieve kw)" "\<not> is_create_model (Sm_create_endpoint_config kw)"
  "\<not> is_create_model (Sm_create_endpoint kw)"
  by (simp_all add: is_role_lookup_def is_retrieve_def is_create_model_def)

lemma serving_kinds:
  "serving_call w c \<Longrightarrow> \<not> is_role_lookup c \<and> \<not> is_retrieve c \<and> \<not> is_create_model c"
  by (auto simp: serving_call_def is_role_lookup_def is_retrieve_def is_create_model_def
      predict_english_def predict_german_def)

lemma fallback_role:
  fixes w :: world
  defines "failed \<equiv> \<lambda>tr. (\<exists>msg. role_events tr = [(Get_execution_role, Inl (ValueError msg))]) \<and>
      image_events tr = [] \<and> model_events tr = []"
  shows "valid failed
     (then_do (perform w (Boto3_client ''iam'')) (\<lambda>iam.
      then_do (perform w (Iam_get_role [(''RoleName'', PyStr ''sagemaker_execution_role'')])) (\<lambda>r.
      then_do (subscript r ''Role'') (\<lambda>r'.
      subscript r' ''Arn''))))
     permitted (\<lambda>_. before_deploy)"
proof -
  define found where "found = (\<lambda>resp tr.
    (\<exists>msg. role_events tr = [(Get_execution_role, Inl (ValueError msg)),
       (Iam_get_role [(''RoleName'', PyStr ''sagemaker_execution_role'')], Inr resp)]) \<and>
    image_events tr = [] \<and> model_events tr = [])"
  have fb: "failed tr \<Longrightarrow> before_deploy tr" for tr
    by (simp add: failed_def before_deploy_def)
  have fo: "found resp tr \<Longrightarrow> before_deploy tr" for resp tr
    by (simp add: found_def before_deploy_def)
  have 1: "valid failed (perform w (Boto3_client ''iam'')) (\<lambda>_. failed) (\<lambda>_. before_deploy)"
    by (rule valid_perform) (simp_all add: failed_def before_deploy_def events_snoc)
  have 2: "valid failed
      (perform w (Iam_get_role [(''RoleName'', PyStr ''sagemaker_execution_role'')]))
      found (\<lambda>_. before_deploy)"
    by (rule valid_perform) (auto simp: failed_def found_def before_deploy_def events_snoc)
  have 3: "valid (found r) (subscript r ''Role'')
      (\<lambda>rd tr. found r tr \<and> dict_get r ''Role'' = Some rd) (\<lambda>_. before_deploy)" for r
    by (rule valid_subscript_get) (simp_all add: fo)
  have 4: "valid (\<lambda>tr. found r tr \<and> dict_get r ''Role'' = Some rd) (subscript rd ''Arn'')
      permitted (\<lambda>_. before_deploy)" for r rd
    by (rule valid_subscript_get) (auto simp: fo found_def permitted_def role_from_def)
  show ?thesis
    by (intro valid_then[OF 1] valid_then[OF 2] valid_then[OF 3] 4)
qed

lemma role_lookup:
  "valid fresh
     (try_except_ValueError (perform w Get_execution_role)
        (then_do (perform w (Boto3_client ''iam'')) (\<lambda>iam.
         then_do (perform w (Iam_get_role [(''RoleName'', PyStr ''sagemaker_execution_role'')])) (\<lambda>r.
         then_do (subscript r ''Role'') (\<lambda>r'.
         subscript r' ''Arn'')))))
     permitted (\<lambda>_. before_deploy)"
proof (rule valid_try[OF _ fallback_role])
  show "valid fresh (perform w Get_execution_role) permitted
     (\<lambda>e tr. case e of
        ValueError msg \<Rightarrow> (\<exists>msg. role_events tr = [(Get_execution_role, Inl (ValueError msg))]) \<and>
          image_events tr = [] \<and> model_events tr = []
      | _ \<Rightarrow> before_deploy tr)"
    by (rule valid_perform)
      (auto simp: fresh_def permitted_def role_from_def before_deploy_def events_snoc
        split: py_exn.splits)
qed

lemma permissions_role:
  "valid fresh (permissions w) (\<lambda>(role, region). permitted role) (\<lambda>_. before_deploy)"
proof -
  have a: "valid fresh (perform w c) (\<lambda>_. fresh) (\<lambda>_. before_deploy)"
    if "\<not> is_role_lookup c" "\<not> is_retrieve c" "\<not> is_create_model c" for c
    by (rule valid_perform) (simp_all add: that fresh_def before_deploy_def events_snoc)
  have b: "valid (permitted role) (perform w c) (\<lambda>_. permitted role) (\<lambda>_. before_deploy)"
    if "\<not> is_role_lookup c" "\<not> is_retrieve c" "\<not> is_create_model c" for c role
    by (rule valid_perform)
      (simp_all add: that permitted_def role_from_def before_deploy_def events_snoc)
  have c: "valid fresh (if sess \<noteq> PyNone then perform w Sess_default_bucket else ret PyNone)
      (\<lambda>_. fresh) (\<lambda>_. before_deploy)" for sess
    by (intro valid_if a valid_ret) simp_all
  have d: "valid (permitted role) (ret (role, boto_region_name w sess))
      (\<lambda>(role, region). permitted role) (\<lambda>_. before_deploy)" for role sess
    by (rule valid_ret) simp
  show ?thesis
    unfolding permissions_def
    by (intro valid_then[OF a] valid_then[OF c] valid_then[OF role_lookup] valid_then[OF b] d)
      simp_all
qed

lemma retrieve_provenance:
  "valid (permitted role) (retrieve_image w region) (resolved role region) (\<lambda>_. before_deploy)"
  unfolding retrieve_image_def
  by (rule valid_perform)
    (simp_all add: permitted_def resolved_def resolved_from_def role_from_def before_deploy_def
      events_snoc)

lemma deployed_with_snoc:
  "deployed_with role region dlc tr \<Longrightarrow>
   \<not> is_role_lookup c \<Longrightarrow> \<not> is_retrieve c \<Longrightarrow> \<not> is_create_model c \<Longrightarrow>
   deployed_with role region dlc (tr @ [(c, r)])"
  by (simp add: deployed_with_def role_from_def resolved_from_def events_snoc)

lemma deploy_provenance:
  "valid (resolved role region dlc) (deploy w role dlc)
     (\<lambda>_. deployed_with role region dlc) (\<lambda>_. deployed_with role region dlc)"
proof -
  have 1: "valid (resolved role region dlc)
      (perform w (Sm_create_model (create_model_kwargs role dlc)))
      (\<lambda>_. deployed_with role region dlc) (\<lambda>_. deployed_with role region dlc)"
    by (rule valid_perform)
      (simp_all add: resolved_def deployed_with_def role_from_def resolved_from_def events_snoc)
  have 2: "valid (deployed_with role region dlc) (perform w c)
      (\<lambda>_. deployed_with role region dlc) (\<lambda>_. deployed_with role region dlc)"
    if "\<not> is_role_lookup c" "\<not> is_retrieve c" "\<not> is_create_model c" for c
    by (rule valid_perform) (simp_all add: that deployed_with_snoc)
  show ?thesis
    unfolding deploy_def
    by (intro valid_then[OF 1] valid_then[OF 2] valid_ret) simp_all
qed

lemma serving_provenance:
  "valid (deployed_with role region dlc) (serving w)
     (\<lambda>_. deployed_with role region dlc) (\<lambda>_. deployed_with role region dlc)"
  by (rule serving_keeps) (simp add: deployed_with_snoc serving_kinds)

lemma notebook_provenance:
  "valid (\<lambda>tr. tr = []) (notebook w)
     (\<lambda>_ tr. \<exists>role region dlc. deployed_with role region dlc tr) (\<lambda>_. provenance)"
proof (rule notebook_stages[where Pchecked = fresh and Ppermitted = "\<lambda>role _. permitted role"
      and Presolved = resolved and Pdeployed = deployed_with])
  show "valid (\<lambda>tr. tr = []) (check_version w) (\<lambda>_. fresh) (\<lambda>_. provenance)"
    by (rule check_version_valid)
      (simp_all add: fresh_def provenance_def before_deploy_def role_events_def image_events_def
        model_events_def)
  show "valid fresh (permissions w) (\<lambda>(role, region). permitted role) (\<lambda>_. provenance)"
    by (rule valid_weaken[OF permissions_role]) (simp_all add: provenance_def)
  show "valid (permitted role) (retrieve_image w region) (resolved role region) (\<lambda>_. provenance)"
    for role region
    by (rule valid_weaken[OF retrieve_provenance]) (simp_all add: provenance_def)
  show "valid (resolved role region dlc) (deploy w role dlc) (\<lambda>_. deployed_with role region dlc)
     (\<lambda>_. provenance)" for role region dlc
    by (rule valid_weaken[OF deploy_provenance]) (auto simp: provenance_def)
  show "valid (deployed_with role region dlc) (serving w)
     (\<lambda>_ tr. \<exists>role region dlc. deployed_with role region dlc tr) (\<lambda>_. provenance)"
    for role region dlc
    by (rule valid_weaken[OF serving_provenance]) (auto simp: provenance_def)
qed

lemma run_provenance: "provenance (run_trace w)"
proof -
  obtain r tr where run: "notebook w [] = (r, tr)" by (cases "notebook w []")
  show ?thesis
  proof (cases r)
    case (Inl e)
    from validD_err[OF notebook_provenance _ run[unfolded Inl]] run show ?thesis
      by (simp add: run_trace_def)
  next
    case (Inr u)
    from validD_ok[OF notebook_provenance _ run[unfolded Inr]] run show ?thesis
      by (auto simp: run_trace_def provenance_def)
  qed
qed

lemma run_provenance_ok:
  assumes "outcome w = Inr ()"
  shows "\<exists>role region dlc. deployed_with role region dlc (run_trace w)"
proof -
  from assms have run: "notebook w [] = (Inr (), run_trace w)"
    by (simp add: outcome_def run_trace_def prod_eq_iff)
  from validD_ok[OF notebook_provenance _ run] show ?thesis by simp
qed

lemma created_model_provenance:
  assumes "(Sm_create_model kw, r) \<in> set (run_trace w)"
  shows "\<exists>role region dlc. deployed_with role region dlc (run_trace w) \<and>
     kw = create_model_kwargs role dlc"
proof -
  from assms have mem: "(Sm_create_model kw, r) \<in> set (model_events (run_trace w))"
    by (simp add: model_events_def)
  then have "\<not> before_deploy (run_trace w)"
    by (auto simp: before_deploy_def)
  with run_provenance[of w] obtain role region dlc where
    d: "deployed_with role region dlc (run_trace w)"
    by (auto simp: provenance_def)
  then obtain r' where
    "model_events (run_trace w) = [(Sm_create_model (create_model_kwargs role dlc), r')]"
    by (auto simp: deployed_with_def)
  with mem have "kw = create_model_kwargs role dlc" by simp
  with d show ?thesis by blast
qed

lemma role_from_fallback:
  assumes "role_from tr role" and "(Get_execution_role, Inl (ValueError msg)) \<in> set tr"
  shows "\<exists>resp rd.
     (Iam_get_role [(''RoleName'', PyStr ''sagemaker_execution_role'')], Inr resp) \<in> set tr \<and>
     dict_get resp ''Role'' = Some rd \<and> dict_get rd ''Arn'' = Some role"
proof -
  from assms(2) have mem: "(Get_execution_role, Inl (ValueError msg)) \<in> set (role_events tr)"
    by (simp add: role_events_def is_role_lookup_def)
  then have "role_events tr \<noteq> [(Get_execution_role, Inr role)]" by auto
  with assms(1) obtain m resp rd where
    ev: "role_events tr = [(Get_execution_role, Inl (ValueError m)),
       (Iam_get_role [(''RoleName'', PyStr ''sagemaker_execution_role'')], Inr resp)]"
    and arn: "dict_get resp ''Role'' = Some rd" "dict_get rd ''Arn'' = Some role"
    by (auto simp: role_from_def)
  have "(Iam_get_role [(''RoleName'', PyStr ''sagemaker_execution_role'')], Inr resp)
      \<in> set (role_events tr)"
    by (simp add: ev)
  then have "(Iam_get_role [(''RoleName'', PyStr ''sagemaker_execution_role'')], Inr resp) \<in> set tr"
    by (simp add: role_events_def)
  with arn show ?thesis by blast
qed

subsection \<open>An exception that is not caught ends the run\<close>

lemma quiet_snoc:
  "quiet tr \<Longrightarrow> quiet (tr @ [(c, Inr x)])"
  "quiet tr \<Longrightarrow> stopped e (tr @ [(c, Inl e)])"
  "quiet tr \<Longrightarrow> stopped e tr"
  "quiet tr \<Longrightarrow> quiet (tr @ [(Get_execution_role, Inl (ValueError msg))])"
  by (auto simp: quiet_def stopped_def handled_def)

lemma notebook_propagates: "valid quiet (notebook w) (\<lambda>_. quiet) stopped"
  unfolding notebook_def cell_defs
  by (intro step_rules) (simp_all add: quiet_snoc split: py_exn.splits)

lemma unhandled_failure_is_last:
  assumes mem: "(c, Inl e) \<in> set (run_trace w)" and unh: "\<not> handled (c, Inl e)"
  shows "outcome w = Inl e \<and> run_trace w \<noteq> [] \<and> last (run_trace w) = (c, Inl e)"
proof -
  obtain r tr where run: "notebook w [] = (r, tr)" by (cases "notebook w []")
  then have tr: "run_trace w = tr" and r: "outcome w = r"
    by (simp_all add: run_trace_def outcome_def)
  have q0: "quiet []" by (simp add: quiet_def)
  from mem unh tr have nq: "\<not> quiet tr"
    unfolding quiet_def by (intro notI) (drule bspec[where x="(c, Inl e)"], auto)
  show ?thesis
  proof (cases r)
    case (Inr u)
    from validD_ok[OF notebook_propagates q0 run[unfolded Inr]] nq show ?thesis by simp
  next
    case (Inl e')
    from validD_err[OF notebook_propagates q0 run[unfolded Inl]] nq
    obtain tr0 c' where t: "tr = tr0 @ [(c', Inl e')]" and q: "quiet tr0"
      by (auto simp: stopped_def)
    have "(c, Inl e) \<notin> set tr0"
    proof
      assume "(c, Inl e) \<in> set tr0"
      with q have "(\<exists>x. snd (c, Inl e :: py_exn + pyval) = Inr x) \<or> handled (c, Inl e)"
        unfolding quiet_def by (rule bspec)
      with unh show False by simp
    qed
    with mem tr t have "(c, Inl e) = (c', Inl e')"
      by auto
    with t tr r Inl show ?thesis by simp
  qed
qed

subsection \<open>A \<open>ValueError\<close> of the role lookup is caught\<close>

text \<open>
  Whatever its message, a \<open>ValueError\<close> raised by \<open>get_execution_role\<close> does not
  end the run: the events of the handler follow it in the trace.
\<close>

lemma handled_iff:
  "handled (c, r) \<longleftrightarrow> c = Get_execution_role \<and> (\<exists>msg. r = Inl (ValueError msg))"
  by (auto simp: handled_def split: call.splits sum.splits py_exn.splits)

lemma fallback_follows_snoc: "fallback_follows post \<Longrightarrow> fallback_follows (post @ [ev])"
  unfolding fallback_follows_def by fastforce

lemma pending_snoc: "pending post tr \<Longrightarrow> pending (post @ [ev]) (tr @ [ev])"
  unfolding pending_def by auto

lemma clean_no_value_error: "clean tr \<Longrightarrow> no_value_error tr"
  by (auto simp: clean_def no_value_error_def handled_iff)

lemma clean_fallback_ok: "clean tr \<Longrightarrow> fallback_ok tr"
  by (simp add: fallback_ok_def clean_no_value_error)

lemma clean_snoc: "clean tr \<Longrightarrow> c \<noteq> Get_execution_role \<Longrightarrow> clean (tr @ [(c, r)])"
  by (simp add: clean_def)

lemma no_value_error_snoc:
  "no_value_error tr \<Longrightarrow> \<not> handled (c, r) \<Longrightarrow> no_value_error (tr @ [(c, r)])"
  by (simp add: no_value_error_def)

lemma caught_snoc:
  assumes "caught tr" and "c \<noteq> Get_execution_role"
  shows "caught (tr @ [(c, r)])"
proof -
  from assms(1) obtain post where p: "pending post tr" "clean post" "fallback_follows post"
    by (auto simp: caught_def)
  from p(1) have "pending (post @ [(c, r)]) (tr @ [(c, r)])" by (rule pending_snoc)
  moreover from p(2) assms(2) have "clean (post @ [(c, r)])" by (simp add: clean_def)
  moreover from p(3) have "fallback_follows (post @ [(c, r)])" by (rule fallback_follows_snoc)
  ultimately show ?thesis unfolding caught_def by blast
qed

lemma fallback_ok_snoc:
  "fallback_ok tr \<Longrightarrow> c \<noteq> Get_execution_role \<Longrightarrow> fallback_ok (tr @ [(c, r)])"
  unfolding fallback_ok_def
  by (auto simp: no_value_error_snoc handled_iff caught_snoc)

lemma fallback_handler:
  "valid (pending [])
     (then_do (perform w (Boto3_client ''iam'')) (\<lambda>iam.
      then_do (perform w (Iam_get_role [(''RoleName'', PyStr ''sagemaker_execution_role'')])) (\<lambda>r.
      then_do (subscript r ''Role'') (\<lambda>r'.
      subscript r' ''Arn''))))
     (\<lambda>_. resumed) (\<lambda>_. fallback_ok)"
proof -
  let ?iam = "Boto3_client ''iam''"
  let ?get = "Iam_get_role [(''RoleName'', PyStr ''sagemaker_execution_role'')]"
  have 1: "valid (pending []) (perform w ?iam) (\<lambda>x. pending [(?iam, Inr x)]) (\<lambda>_. fallback_ok)"
  proof (rule valid_perform)
    fix tr x assume "pending [] tr"
    from pending_snoc[OF this] show "pending [(?iam, Inr x)] (tr @ [(?iam, Inr x)])" by simp
  next
    fix tr e assume "pending [] tr"
    from pending_snoc[OF this] have "pending [(?iam, Inl e)] (tr @ [(?iam, Inl e)])" by simp
    moreover have "clean [(?iam, Inl e)]" "fallback_follows [(?iam, Inl e)]"
      by (simp_all add: clean_def fallback_follows_def)
    ultimately show "fallback_ok (tr @ [(?iam, Inl e)])"
      unfolding fallback_ok_def caught_def by blast
  qed
  have 2: "valid (pending [(?iam, Inr x)]) (perform w ?get)
      (\<lambda>resp. pending [(?iam, Inr x), (?get, Inr resp)]) (\<lambda>_. fallback_ok)" for x
  proof (rule valid_perform)
    fix tr resp assume "pending [(?iam, Inr x)] tr"
    from pending_snoc[OF this]
    show "pending [(?iam, Inr x), (?get, Inr resp)] (tr @ [(?get, Inr resp)])" by simp
  next
    fix tr e assume "pending [(?iam, Inr x)] tr"
    from pending_snoc[OF this]
    have "pending [(?iam, Inr x), (?get, Inl e)] (tr @ [(?get, Inl e)])" by simp
    moreover have "clean [(?iam, Inr x), (?get, Inl e)]"
      "fallback_follows [(?iam, Inr x), (?get, Inl e)]"
      by (simp_all add: clean_def fallback_follows_def)
    ultimately show "fallback_ok (tr @ [(?get, Inl e)])"
      unfolding fallback_ok_def caught_def by blast
  qed
  have stuck: "fallback_ok tr"
    if "pending [(?iam, Inr x), (?get, Inr resp)] tr"
      and "\<And>rd role. dict_get resp ''Role'' = Some rd \<Longrightarrow> dict_get rd ''Arn'' \<noteq> Some role"
    for tr x resp
  proof -
    have "clean [(?iam, Inr x), (?get, Inr resp)]"
      by (simp add: clean_def)
    moreover from that(2)
    have "\<not> (\<exists>rd role. dict_get resp ''Role'' = Some rd \<and> dict_get rd ''Arn'' = Some role)"
      by blast
    then have "fallback_follows [(?iam, Inr x), (?get, Inr resp)]"
      by (simp add: fallback_follows_def)
    ultimately show ?thesis
      using that(1) unfolding fallback_ok_def caught_def by blast
  qed
  have 3: "valid (pending [(?iam, Inr x), (?get, Inr resp)]) (subscript resp ''Role'')
      (\<lambda>rd tr. pending [(?iam, Inr x), (?get, Inr resp)] tr \<and> dict_get resp ''Role'' = Some rd)
      (\<lambda>_. fallback_ok)" for x resp
  proof (rule valid_subscript_cases)
    fix tr e assume "pending [(?iam, Inr x), (?get, Inr resp)] tr" "dict_get resp ''Role'' = None"
    then show "fallback_ok tr" by (intro stuck) auto
  qed simp
  have 4: "valid (\<lambda>tr. pending [(?iam, Inr x), (?get, Inr resp)] tr \<and> dict_get resp ''Role'' = Some rd)
      (subscript rd ''Arn'') (\<lambda>_. resumed) (\<lambda>_. fallback_ok)" for x resp rd
  proof (rule valid_subscript_cases)
    fix tr e
    assume "pending [(?iam, Inr x), (?get, Inr resp)] tr \<and> dict_get resp ''Role'' = Some rd"
      "dict_get rd ''Arn'' = None"
    then show "fallback_ok tr" by (intro stuck[of x resp]) auto
  qed (auto simp: resumed_def)
  show ?thesis
    by (intro valid_then[OF 1] valid_then[OF 2] valid_then[OF 3] 4)
qed

lemma fallback_try:
  "valid clean
     (try_except_ValueError (perform w Get_execution_role)
        (then_do (perform w (Boto3_client ''iam'')) (\<lambda>iam.
         then_do (perform w (Iam_get_role [(''RoleName'', PyStr ''sagemaker_execution_role'')])) (\<lambda>r.
         then_do (subscript r ''Role'') (\<lambda>r'.
         subscript r' ''Arn'')))))
     (\<lambda>_ tr. no_value_error tr \<or> resumed tr) (\<lambda>_. fallback_ok)"
proof (rule valid_try[where R="pending []"])
  show "valid clean (perform w Get_execution_role) (\<lambda>_ tr. no_value_error tr \<or> resumed tr)
     (\<lambda>e tr. case e of ValueError msg \<Rightarrow> pending [] tr | _ \<Rightarrow> fallback_ok tr)"
  proof (rule valid_perform)
    fix tr x assume "clean tr"
    then show "no_value_error (tr @ [(Get_execution_role, Inr x)]) \<or>
        resumed (tr @ [(Get_execution_role, Inr x)])"
      by (simp add: no_value_error_snoc clean_no_value_error handled_iff)
  next
    fix tr e assume c: "clean tr"
    show "case e of ValueError msg \<Rightarrow> pending [] (tr @ [(Get_execution_role, Inl e)])
        | _ \<Rightarrow> fallback_ok (tr @ [(Get_execution_role, Inl e)])"
    proof (cases e)
      case (ValueError msg)
      with c show ?thesis by (auto simp: pending_def)
    qed (use c in \<open>simp_all add: fallback_ok_def no_value_error_snoc clean_no_value_error handled_iff\<close>)
  qed
  show "valid (pending [])
     (then_do (perform w (Boto3_client ''iam'')) (\<lambda>iam.
      then_do (perform w (Iam_get_role [(''RoleName'', PyStr ''sagemaker_execution_role'')])) (\<lambda>r.
      then_do (subscript r ''Role'') (\<lambda>r'.
      subscript r' ''Arn''))))
     (\<lambda>_ tr. no_value_error tr \<or> resumed tr) (\<lambda>_. fallback_ok)"
    by (rule valid_weaken[OF fallback_handler]) simp_all
qed

lemma permissions_fallback:
  "valid clean (permissions w) (\<lambda>_. fallback_ok) (\<lambda>_. fallback_ok)"
proof -
  have a: "valid clean (perform w c) (\<lambda>_. clean) (\<lambda>_. fallback_ok)"
    if "c \<noteq> Get_execution_role" for c
    by (rule valid_perform) (simp_all add: that clean_snoc clean_fallback_ok)
  have b: "valid fallback_ok (perform w c) (\<lambda>_. fallback_ok) (\<lambda>_. fallback_ok)"
    if "c \<noteq> Get_execution_role" for c
    by (rule valid_perform) (simp_all add: that fallback_ok_snoc)
  have c: "valid clean (if sess \<noteq> PyNone then perform w Sess_default_bucket else ret PyNone)
      (\<lambda>_. clean) (\<lambda>_. fallback_ok)" for sess
    by (intro valid_if a valid_ret) simp_all
  have s: "valid (\<lambda>tr. no_value_error tr \<or> resumed tr)
      (perform w (Sagemaker_Session [(''default_bucket'', bucket)]))
      (\<lambda>_. fallback_ok) (\<lambda>_. fallback_ok)" for bucket
  proof -
    let ?s = "Sagemaker_Session [(''default_bucket'', bucket)]"
    have "fallback_ok (tr @ [(?s, r)])" if "no_value_error tr \<or> resumed tr" for tr r
      using that
    proof
      assume "no_value_error tr"
      then show ?thesis
        by (simp add: fallback_ok_def no_value_error_snoc handled_iff)
    next
      assume "resumed tr"
      then obtain x resp where
        "pending [(Boto3_client ''iam'', Inr x),
           (Iam_get_role [(''RoleName'', PyStr ''sagemaker_execution_role'')], Inr resp)] tr"
        by (auto simp: resumed_def)
      from pending_snoc[OF this, of "(?s, r)"]
      have "pending [(Boto3_client ''iam'', Inr x),
           (Iam_get_role [(''RoleName'', PyStr ''sagemaker_execution_role'')], Inr resp),
           (?s, r)] (tr @ [(?s, r)])" by simp
      moreover have "clean [(Boto3_client ''iam'', Inr x),
           (Iam_get_role [(''RoleName'', PyStr ''sagemaker_execution_role'')], Inr resp),
           (?s, r)]" by (simp add: clean_def)
      moreover have "fallback_follows [(Boto3_client ''iam'', Inr x),
           (Iam_get_role [(''RoleName'', PyStr ''sagemaker_execution_role'')], Inr resp),
           (?s, r)]" by (simp add: fallback_follows_def)
      ultimately show ?thesis
        unfolding fallback_ok_def caught_def by blast
    qed
    then show ?thesis by (intro valid_perform) simp_all
  qed
  have d: "valid fallback_ok (ret (role, boto_region_name w sess))
      (\<lambda>_. fallback_ok) (\<lambda>_. fallback_ok)" for role sess
    by (rule valid_ret) simp
  show ?thesis
    unfolding permissions_def
    by (intro valid_then[OF a] valid_then[OF c] valid_then[OF fallback_try] valid_then[OF s]
        valid_then[OF b] d) simp_all
qed

lemma notebook_fallback:
  "valid (\<lambda>tr. tr = []) (notebook w) (\<lambda>_. fallback_ok) (\<lambda>_. fallback_ok)"
proof (rule notebook_stages[where Pchecked = clean and Ppermitted = "\<lambda>_ _. fallback_ok"
      and Presolved = "\<lambda>_ _ _. fallback_ok" and Pdeployed = "\<lambda>_ _ _. fallback_ok"])
  show "valid (\<lambda>tr. tr = []) (check_version w) (\<lambda>_. clean) (\<lambda>_. fallback_ok)"
    by (rule check_version_valid)
      (simp_all add: clean_def fallback_ok_def no_value_error_def)
  show "valid clean (permissions w) (\<lambda>(role, region). fallback_ok) (\<lambda>_. fallback_ok)"
    by (rule valid_weaken[OF permissions_fallback]) (simp_all split: prod.splits)
  show "valid fallback_ok (retrieve_image w region) (\<lambda>_. fallback_ok) (\<lambda>_. fallback_ok)" for region
    unfolding retrieve_image_def by (rule valid_perform) (simp_all add: fallback_ok_snoc)
  show "valid fallback_ok (deploy w role dlc) (\<lambda>_. fallback_ok) (\<lambda>_. fallback_ok)" for role dlc
    unfolding deploy_def by (intro step_rules) (simp_all add: fallback_ok_snoc)
  show "valid fallback_ok (serving w) (\<lambda>_. fallback_ok) (\<lambda>_. fallback_ok)"
    by (rule serving_keeps)
      (auto intro!: fallback_ok_snoc simp: serving_call_def predict_english_def predict_german_def)
qed

lemma value_error_is_caught:
  assumes "(Get_execution_role, Inl (ValueError msg)) \<in> set (run_trace w)"
  shows "\<exists>pre post. run_trace w = pre @ (Get_execution_role, Inl (ValueError msg)) # post \<and>
     fallback_follows post"
proof -
  have "fallback_ok (run_trace w)"
    unfolding run_trace_def by (rule valid_snd[OF notebook_fallback]) simp
  moreover have "handled (Get_execution_role, Inl (ValueError msg))"
    by (simp add: handled_iff)
  with assms have "\<not> no_value_error (run_trace w)"
    unfolding no_value_error_def by blast
  ultimately obtain pre msg' post where
    tr: "run_trace w = pre @ (Get_execution_role, Inl (ValueError msg')) # post"
    and c: "clean pre" "clean post" and f: "fallback_follows post"
    by (auto simp: fallback_ok_def caught_def pending_def)
  from assms c have "msg = msg'"
    unfolding tr by (auto simp: clean_def)
  with tr f show ?thesis by blast
qed

lemma fallback_follows_unfold:
  assumes "fallback_follows post"
  shows "\<exists>a post1. post = (Boto3_client ''iam'', a) # post1 \<and>
        (\<forall>x. a = Inr x \<longrightarrow>
           (\<exists>b post2.
              post1 = (Iam_get_role [(''RoleName'', PyStr ''sagemaker_execution_role'')], b) # post2 \<and>
              (\<forall>resp rd role.
                 b = Inr resp \<and> dict_get resp ''Role'' = Some rd \<and> dict_get rd ''Arn'' = Some role \<longrightarrow>
                 (\<exists>bucket c post3.
                    post2 = (Sagemaker_Session [(''default_bucket'', bucket)], c) # post3))))"
  using assms unfolding fallback_follows_def .

subsection \<open>A failed lookup in an answer ends the run\<close>

text \<open>
  The two subscript expressions of the notebook are outside every \<open>try\<close>: the
  \<open>KeyError\<close> or \<open>TypeError\<close> they raise is the outcome of the run.
\<close>

lemma subscript_pure: "subscript v k tr = (fst (subscript v k []), tr)"
  by (simp add: subscript_def ret_def raise_def split: pyval.splits option.splits)

lemma role_arn_pure:
  "then_do (subscript v ''Role'') (\<lambda>r'. subscript r' ''Arn'') tr =
     (fst (then_do (subscript v ''Role'') (\<lambda>r'. subscript r' ''Arn'') []), tr)"
  by (simp add: then_do_def subscript_def ret_def raise_def split: pyval.splits option.splits)

lemma usable_snoc:
  "usable tr \<Longrightarrow> usable (tr @ [(c, Inl e)])"
  "usable tr \<Longrightarrow> local_error c x = None \<Longrightarrow> usable (tr @ [(c, Inr x)])"
  "usable tr \<Longrightarrow> broke e (tr @ [(c, Inl e)])"
  "usable tr \<Longrightarrow> broke e tr"
  by (auto simp: usable_def broke_def)

lemma local_error_none [simp]:
  "local_error (Sagemaker_Session kw) x = None"
  "local_error Sess_default_bucket x = None"
  "local_error Get_execution_role x = None"
  "local_error (Boto3_client n) x = None"
  "local_error (Image_uris_retrieve kw) x = None"
  "local_error (Sm_create_model kw) x = None"
  "local_error (Sm_create_endpoint_config kw) x = None"
  "local_error (Sm_create_endpoint kw) x = None"
  "local_error (Json_loads v) x = None"
  "local_error (HuggingFacePredictor n) x = None"
  "local_error (Predictor_predict d a) x = None"
  "local_error Predictor_delete_model x = None"
  "local_error Predictor_delete_endpoint x = None"
  by (simp_all add: local_error_def)

lemma perform_usable:
  "(\<And>x. local_error c x = None) \<Longrightarrow> valid usable (perform w c) (\<lambda>_. usable) broke"
  by (rule valid_perform) (simp_all add: usable_snoc)

lemma perform_fetched: "valid usable (perform w c) (fetched c) broke"
  by (rule valid_perform) (auto simp: fetched_def usable_snoc)

lemma fetched_ok: "fetched c x tr \<Longrightarrow> local_error c x = None \<Longrightarrow> usable tr"
  by (auto simp: fetched_def usable_snoc)

lemma fetched_broke: "fetched c x tr \<Longrightarrow> local_error c x = Some e \<Longrightarrow> broke e tr"
  by (auto simp: fetched_def broke_def)

lemma invoke_usable:
  "valid usable
     (then_do (perform w (Boto3_client n)) (\<lambda>invoke_client.
      then_do (perform w (Invoke_endpoint kw)) (\<lambda>response.
      then_do (subscript response ''Body'') (\<lambda>body.
      perform w (Json_loads body)))))
     (\<lambda>_. usable) broke"
proof -
  have 3: "valid (fetched (Invoke_endpoint kw) response) (subscript response ''Body'')
      (\<lambda>_. usable) broke" for response
    by (rule valid_pure[OF subscript_pure])
      (auto intro: fetched_ok fetched_broke simp: local_error_def)
  show ?thesis
    by (intro valid_then[OF perform_usable] valid_then[OF perform_fetched] valid_then[OF 3]
        perform_usable) simp_all
qed

lemma permissions_usable: "valid usable (permissions w) (\<lambda>_. usable) broke"
proof -
  let ?get = "Iam_get_role [(''RoleName'', PyStr ''sagemaker_execution_role'')]"
  have arn: "valid (fetched ?get r) (then_do (subscript r ''Role'') (\<lambda>r'. subscript r' ''Arn''))
      (\<lambda>_. usable) broke" for r
    by (rule valid_pure[OF role_arn_pure])
      (auto intro: fetched_ok fetched_broke simp: local_error_def)
  have handler: "valid usable
     (then_do (perform w (Boto3_client ''iam'')) (\<lambda>iam.
      then_do (perform w ?get) (\<lambda>r.
      then_do (subscript r ''Role'') (\<lambda>r'.
      subscript r' ''Arn''))))
     (\<lambda>_. usable) broke"
    by (intro valid_then[OF perform_usable] valid_then[OF perform_fetched] arn) simp_all
  have lookup: "valid usable (perform w Get_execution_role) (\<lambda>_. usable)
      (\<lambda>e tr. case e of ValueError msg \<Rightarrow> usable tr | _ \<Rightarrow> broke e tr)"
    by (rule valid_perform) (simp_all add: usable_snoc split: py_exn.splits)
  have c: "valid usable (if sess \<noteq> PyNone then perform w Sess_default_bucket else ret PyNone)
      (\<lambda>_. usable) broke" for sess
    by (intro valid_if perform_usable valid_ret) simp_all
  show ?thesis
    unfolding permissions_def
    by (intro valid_then[OF perform_usable] valid_then[OF c]
        valid_then[OF valid_try[OF lookup handler]] valid_ret) simp_all
qed

lemma notebook_usable: "valid (\<lambda>tr. tr = []) (notebook w) (\<lambda>_. usable) broke"
proof (rule notebook_stages[where Pchecked = usable and Ppermitted = "\<lambda>_ _. usable"
      and Presolved = "\<lambda>_ _ _. usable" and Pdeployed = "\<lambda>_ _ _. usable"])
  show "valid (\<lambda>tr. tr = []) (check_version w) (\<lambda>_. usable) broke"
    by (rule check_version_valid) (simp_all add: usable_def broke_def)
  show "valid usable (permissions w) (\<lambda>(role, region). usable) broke"
    by (rule valid_weaken[OF permissions_usable]) (simp_all split: prod.splits)
  show "valid usable (retrieve_image w region) (\<lambda>_. usable) broke" for region
    unfolding retrieve_image_def by (rule perform_usable) simp
  show "valid usable (deploy w role dlc) (\<lambda>_. usable) broke" for role dlc
    unfolding deploy_def by (intro step_rules) (simp_all add: usable_snoc)
  show "valid usable (serving w) (\<lambda>_. usable) broke"
    unfolding serving_def invoke_englishModel_def invoke_germanModel_def
    apply (intro valid_then[OF invoke_usable])
    unfolding predictor_requests_def load_test_def teardown_def predict_english_def
      predict_german_def
    by (intro step_rules) (simp_all add: usable_snoc)
qed

lemma local_error_is_last:
  assumes mem: "(c, Inr x) \<in> set (run_trace w)" and err: "local_error c x = Some e"
  shows "outcome w = Inl e \<and> run_trace w \<noteq> [] \<and> last (run_trace w) = (c, Inr x)"
proof -
  obtain r tr where run: "notebook w [] = (r, tr)" by (cases "notebook w []")
  then have tr: "run_trace w = tr" and r: "outcome w = r"
    by (simp_all add: run_trace_def outcome_def)
  from mem err tr have nu: "\<not> usable tr"
    unfolding usable_def by auto
  show ?thesis
  proof (cases r)
    case (Inr u)
    from validD_ok[OF notebook_usable _ run[unfolded Inr]] nu show ?thesis by simp
  next
    case (Inl e')
    from validD_err[OF notebook_usable _ run[unfolded Inl]] nu
    obtain tr0 c' x' where t: "tr = tr0 @ [(c', Inr x')]" and u: "usable tr0"
      and e': "local_error c' x' = Some e'"
      by (auto simp: broke_def)
    have "(c, Inr x) \<notin> set tr0"
      using u err unfolding usable_def by auto
    with mem tr t have "c = c'" "x = x'" by auto
    with err e' have "e = e'" by simp
    with t tr r Inl \<open>c = c'\<close> \<open>x = x'\<close> show ?thesis by simp
  qed
qed

subsection \<open>The role of the fallback, and failing calls\<close>

lemma fallback_role_and_failing_calls:
  "(\<forall>role region tr' msg.
      permissions w [] = (Inr (role, region), tr') \<and>
      (Get_execution_role, Inl (ValueError msg)) \<in> set tr' \<longrightarrow>
      (\<exists>resp rd.
         (Iam_get_role [(''RoleName'', PyStr ''sagemaker_execution_role'')], Inr resp) \<in> set tr' \<and>
         dict_get resp ''Role'' = Some rd \<and> dict_get rd ''Arn'' = Some role)) \<and>
   (\<forall>msg kw r.
      (Get_execution_role, Inl (ValueError msg)) \<in> set (run_trace w) \<and>
      (Sm_create_model kw, r) \<in> set (run_trace w) \<longrightarrow>
      (\<exists>resp rd role.
         (Iam_get_role [(''RoleName'', PyStr ''sagemaker_execution_role'')], Inr resp)
            \<in> set (run_trace w) \<and>
         dict_get resp ''Role'' = Some rd \<and> dict_get rd ''Arn'' = Some role \<and>
         map_of kw ''ExecutionRoleArn'' = Some role)) \<and>
   (\<forall>c e.
      (c, Inl e) \<in> set (run_trace w) \<and> \<not> (c = Get_execution_role \<and> (\<exists>msg. e = ValueError msg)) \<longrightarrow>
      outcome w = Inl e \<and> last (run_trace w) = (c, Inl e))"
proof (intro conjI allI impI)
  fix role region tr' msg
  assume a: "permissions w [] = (Inr (role, region), tr') \<and>
      (Get_execution_role, Inl (ValueError msg)) \<in> set tr'"
  have "fresh []"
    by (simp add: fresh_def role_events_def image_events_def model_events_def)
  from validD_ok[OF permissions_role this conjunct1[OF a]] have "role_from tr' role"
    by (simp add: permitted_def)
  from role_from_fallback[OF this conjunct2[OF a]]
  show "\<exists>resp rd.
         (Iam_get_role [(''RoleName'', PyStr ''sagemaker_execution_role'')], Inr resp) \<in> set tr' \<and>
         dict_get resp ''Role'' = Some rd \<and> dict_get rd ''Arn'' = Some role" .
next
  fix msg kw r
  assume a: "(Get_execution_role, Inl (ValueError msg)) \<in> set (run_trace w) \<and>
      (Sm_create_model kw, r) \<in> set (run_trace w)"
  from created_model_provenance[OF conjunct2[OF a]] obtain role region dlc where
    d: "deployed_with role region dlc (run_trace w)" and kw: "kw = create_model_kwargs role dlc"
    by blast
  from d have "role_from (run_trace w) role" by (simp add: deployed_with_def)
  from role_from_fallback[OF this conjunct1[OF a]] obtain resp rd where
    "(Iam_get_role [(''RoleName'', PyStr ''sagemaker_execution_role'')], Inr resp)
        \<in> set (run_trace w)"
    "dict_get resp ''Role'' = Some rd" "dict_get rd ''Arn'' = Some role"
    by blast
  moreover have "map_of kw ''ExecutionRoleArn'' = Some role"
    by (simp add: kw create_model_kwargs_def)
  ultimately show "\<exists>resp rd role.
         (Iam_get_role [(''RoleName'', PyStr ''sagemaker_execution_role'')], Inr resp)
            \<in> set (run_trace w) \<and>
         dict_get resp ''Role'' = Some rd \<and> dict_get rd ''Arn'' = Some role \<and>
         map_of kw ''ExecutionRoleArn'' = Some role"
    by blast
next
  fix c e
  assume a: "(c, Inl e) \<in> set (run_trace w) \<and>
      \<not> (c = Get_execution_role \<and> (\<exists>msg. e = ValueError msg))"
  then have "\<not> handled (c, Inl e)"
    by (auto simp: handled_def split: call.splits py_exn.splits)
  from unhandled_failure_is_last[OF conjunct1[OF a] this]
  show "outcome w = Inl e" "last (run_trace w) = (c, Inl e)" by simp_all
qed

subsection \<open>The last cell\<close>

text \<open>
  A run that completes ends with \<open>predictor.delete_model()\<close> and
  \<open>predictor.delete_endpoint()\<close>, in this order and both answered. What these two
  calls remove on the platform is decided by the SDK and by the platform.
\<close>

lemma teardown_calls:
  "valid (\<lambda>_. True) (teardown w) (\<lambda>_. torn_down) (\<lambda>_ _. True)"
  unfolding teardown_def
  apply (rule valid_then[where R="\<lambda>_ tr. \<exists>tr0 a. tr = tr0 @ [(Predictor_delete_model, Inr a)]"])
   apply (rule valid_perform; simp)
  apply (rule valid_then[where R="\<lambda>_. torn_down"])
   apply (rule valid_perform; auto simp: torn_down_def)
  apply (rule valid_ret)
  apply assumption
  done

lemma complete_run_ends_with_teardown:
  assumes "outcome w = Inr ()"
  shows "torn_down (run_trace w)"
proof -
  have s: "valid (\<lambda>_. True) (serving w) (\<lambda>_. torn_down) (\<lambda>_ _. True)"
    unfolding serving_def
    by (intro valid_then[where R="\<lambda>_ _. True"] teardown_calls) (simp_all add: valid_trivial)
  have v: "valid (\<lambda>tr. tr = []) (notebook w) (\<lambda>_. torn_down) (\<lambda>_ _. True)"
    by (rule notebook_stages[where Pchecked="\<lambda>_. True" and Ppermitted="\<lambda>_ _ _. True"
          and Presolved="\<lambda>_ _ _ _. True" and Pdeployed="\<lambda>_ _ _ _. True"])
      (simp_all add: valid_trivial s split: prod.splits)
  from assms have "notebook w [] = (Inr (), run_trace w)"
    by (simp add: outcome_def run_trace_def prod_eq_iff)
  from validD_ok[OF v _ this] show ?thesis by simp
qed

subsection \<open>Runs in the example worlds\<close>

text \<open>
  With answers that do not depend on the history the loop has a closed form, and the
  runs in the example worlds can be computed.
\<close>

lemma for_in_const:
  assumes "\<And>x tr. body x tr = (Inr (), tr @ evs)"
  shows "for_in xs body tr = (Inr (), tr @ concat (replicate (length xs) evs))"
  by (induction xs arbitrary: tr) (simp_all add: ret_def then_do_def assms)

lemma load_test_quiet:
  assumes "\<And>tr. respond w tr predict_english = Inr a"
    and "\<And>tr. respond w tr predict_german = Inr b"
  shows "load_test w tr =
    (Inr (), tr @ concat (replicate 1000 [(predict_english, Inr a), (predict_german, Inr b)]))"
proof -
  have "round_trip w i t = (Inr (), t @ [(predict_english, Inr a), (predict_german, Inr b)])" for i t
    by (simp add: round_trip_cases assms)
  from for_in_const[of "round_trip w", OF this, of "py_range 1000" tr]
  show ?thesis by (simp add: load_test_round_trip py_range_def)
qed

lemmas run_simps = notebook_def check_version_def permissions_def retrieve_image_def deploy_def
  invoke_englishModel_def invoke_germanModel_def predictor_requests_def teardown_def
  then_do_def perform_def ret_def raise_def subscript_def try_except_ValueError_def
  str_ge_def answer_def example_role_def example_image_def example_fallback_role_def

lemma world_ok_simps:
  "sagemaker_version world_ok = ''2.75.0''"
  "respond world_ok tr c = Inr (answer c)"
  "boto_region_name world_ok sess = PyStr ''us-east-1''"
  "json_dumps world_ok = json_text"
  by (simp_all add: world_ok_def)

lemma world_no_role_simps:
  "sagemaker_version world_no_role = ''2.75.0''"
  "respond world_no_role tr c =
     (if c = Get_execution_role then Inl (ValueError ''The current AWS identity is not a role'')
      else Inr (answer c))"
  "boto_region_name world_no_role sess = PyStr ''us-east-1''"
  "json_dumps world_no_role = json_text"
  by (simp_all add: world_no_role_def world_ok_def)

lemma world_denied_simps:
  "sagemaker_version world_denied = ''2.75.0''"
  "respond world_denied tr c =
     (if c = Get_execution_role then Inl (OtherException ''ClientError'') else Inr (answer c))"
  "boto_region_name world_denied sess = PyStr ''us-east-1''"
  "json_dumps world_denied = json_text"
  by (simp_all add: world_denied_def world_ok_def)

lemma load_test_ok:
  "load_test world_ok tr =
    (Inr (), tr @ concat (replicate 1000 [(predict_english, Inr (PyDict [])), (predict_german, Inr (PyDict []))]))"
  by (rule load_test_quiet) (simp_all add: world_ok_def answer_def predict_english_def predict_german_def)

lemma load_test_no_role:
  "load_test world_no_role tr =
    (Inr (), tr @ concat (replicate 1000
       [(predict_english, Inr (PyDict [])), (predict_german, Inr (PyDict []))]))"
  by (rule load_test_quiet)
    (simp_all add: world_no_role_simps answer_def predict_english_def predict_german_def)

lemma run_outcomes:
  "outcome world_ok = Inr ()"
  "outcome world_no_role = Inr ()"
  "outcome world_denied = Inl (OtherException ''ClientError'')"
  by (simp_all add: outcome_def run_simps load_test_ok load_test_no_role world_ok_simps
      world_no_role_simps world_denied_simps predict_english_def predict_german_def)

lemma sm_events_ok:
  "map fst (sm_events (run_trace world_ok)) = deployment_calls example_role example_image"
  by (simp add: run_trace_def run_simps load_test_ok world_ok_simps sm_events_def
      is_sm_call_def deployment_calls_def predict_english_def predict_german_def)

lemma run_ok_events:
  "(Sm_create_model (create_model_kwargs example_role example_image), Inr (PyDict []))
     \<in> set (run_trace world_ok)"
  "(Sm_create_endpoint_config create_endpoint_config_kwargs, Inr (PyDict []))
     \<in> set (run_trace world_ok)"
  "(Image_uris_retrieve (retrieve_kwargs (PyStr ''us-east-1'')), Inr example_image)
     \<in> set (run_trace world_ok)"
  "(predict_english, Inr (PyDict [])) \<in> set (run_trace world_ok)"
  "(Invoke_endpoint (invoke_kwargs world_ok ''germanModel'' german_payload),
      Inr (PyDict [(''Body'', PyStr ''POSITIVE'')])) \<in> set (run_trace world_ok)"
  by (simp_all add: run_trace_def run_simps load_test_ok world_ok_simps predict_english_def)

lemma run_no_role_events:
  "(Get_execution_role, Inl (ValueError ''The current AWS identity is not a role''))
     \<in> set (run_trace world_no_role)"
  "(Sm_create_model (create_model_kwargs example_fallback_role example_image), Inr (PyDict []))
     \<in> set (run_trace world_no_role)"
  "(Iam_get_role [(''RoleName'', PyStr ''sagemaker_execution_role'')],
      Inr (PyDict [(''Role'', PyDict [(''Arn'', example_fallback_role)])]))
     \<in> set (run_trace world_no_role)"
  by (simp_all add: run_trace_def run_simps load_test_no_role world_no_role_simps
      example_fallback_role_def predict_english_def predict_german_def)

lemma permissions_no_role:
  "fst (permissions world_no_role []) = Inr (example_fallback_role, PyStr ''us-east-1'')"
  "(Get_execution_role, Inl (ValueError ''The current AWS identity is not a role''))
     \<in> set (snd (permissions world_no_role []))"
  by (simp_all add: run_simps world_no_role_simps example_fallback_role_def)

lemma run_denied_events:
  "(Get_execution_role, Inl (OtherException ''ClientError'')) \<in> set (run_trace world_denied)"
  by (simp add: run_trace_def run_simps world_denied_simps)

lemma world_no_body_simps:
  "sagemaker_version world_no_body = ''2.75.0''"
  "respond world_no_body tr c =
     (case c of Invoke_endpoint kw \<Rightarrow> Inr (PyDict []) | _ \<Rightarrow> Inr (answer c))"
  "boto_region_name world_no_body sess = PyStr ''us-east-1''"
  "json_dumps world_no_body = json_text"
  by (simp_all add: world_no_body_def world_ok_def)

lemma world_no_arn_simps:
  "sagemaker_version world_no_arn = ''2.75.0''"
  "respond world_no_arn tr c =
     (case c of
        Get_execution_role \<Rightarrow> Inl (ValueError ''The current AWS identity is not a role'')
      | Iam_get_role kw \<Rightarrow> Inr (PyDict [(''Role'', PyDict [])])
      | _ \<Rightarrow> Inr (answer c))"
  "boto_region_name world_no_arn sess = PyStr ''us-east-1''"
  "json_dumps world_no_arn = json_text"
  by (simp_all add: world_no_arn_def world_ok_def)

lemma run_no_body_events:
  "(Invoke_endpoint (invoke_kwargs world_no_body ''englishModel'' english_payload), Inr (PyDict []))
     \<in> set (run_trace world_no_body)"
  by (simp add: run_trace_def run_simps world_no_body_simps)

lemma run_no_arn_events:
  "(Iam_get_role [(''RoleName'', PyStr ''sagemaker_execution_role'')],
      Inr (PyDict [(''Role'', PyDict [])])) \<in> set (run_trace world_no_arn)"
  by (simp add: run_trace_def run_simps world_no_arn_simps)

lemma run_no_role_fallback:
  "take 4 (drop 2 (run_trace world_no_role)) =
     [(Get_execution_role, Inl (ValueError ''The current AWS identity is not a role'')),
      (Boto3_client ''iam'', Inr (PyDict [])),
      (Iam_get_role [(''RoleName'', PyStr ''sagemaker_execution_role'')],
         Inr (PyDict [(''Role'', PyDict [(''Arn'', example_fallback_role)])])),
      (Sagemaker_Session [(''default_bucket'', PyStr ''sagemaker-us-east-1-123456789012'')],
         Inr (PyDict []))]"
  by (simp add: run_trace_def run_simps load_test_no_role world_no_role_simps
      predict_english_def predict_german_def)

lemma deploy_ok:
  "deploy world_ok example_role example_image [] =
     (Inr (),
      [(Sm_create_model (create_model_kwargs example_role example_image), Inr (PyDict [])),
       (Sm_create_endpoint_config create_endpoint_config_kwargs, Inr (PyDict [])),
       (Sm_create_endpoint create_endpoint_kwargs, Inr (PyDict []))])"
  by (simp add: deploy_def then_do_def perform_def ret_def world_ok_simps answer_def)

lemma subscript_examples:
  "fst (subscript (PyDict []) ''Body'' []) = Inl (KeyError ''Body'')"
  "fst (then_do (subscript (PyDict [(''Role'', PyDict [])]) ''Role'')
      (\<lambda>r'. subscript r' ''Arn'') []) = Inl (KeyError ''Arn'')"
  by (simp_all add: subscript_def then_do_def ret_def raise_def)

section \<open>The claims\<close>

text \<open>
  C1. Every data-plane call of a run, whether sent with the boto3 client, with the
  predictor or from the load-test loop, carries the routing field
  \<open>TargetContainerHostname\<close>, its value is \<open>englishModel\<close> or \<open>germanModel\<close>, and
  that value is one of the container hostnames declared by every \<open>create_model\<close>
  request of the run.
\<close>

theorem routing_field_on_every_invocation:
  assumes "(c, r) \<in> set (run_trace w)" and "is_invocation c"
  shows "(routing_field c = Some (PyStr ''englishModel'') \<or>
          routing_field c = Some (PyStr ''germanModel'')) \<and>
         (\<forall>kw r'. (Sm_create_model kw, r') \<in> set (run_trace w) \<longrightarrow>
            routing_field c \<in> set (declared_hostnames kw))"
proof -
  from run_calls[OF assms(1)] assms(2)
  have c: "c = Invoke_endpoint (invoke_kwargs w ''englishModel'' english_payload) \<or>
        c = Invoke_endpoint (invoke_kwargs w ''germanModel'' german_payload) \<or>
        c = predict_english \<or> c = predict_german"
    by (auto simp: notebook_call_def is_invocation_def)
  then have r: "routing_field c = Some (PyStr ''englishModel'') \<or>
          routing_field c = Some (PyStr ''germanModel'')"
    by (auto simp: routing_field_def invoke_kwargs_def predict_english_def predict_german_def)
  have "routing_field c \<in> set (declared_hostnames kw)"
    if "(Sm_create_model kw, r') \<in> set (run_trace w)" for kw r'
  proof -
    from run_calls[OF that] obtain role dlc where "kw = create_model_kwargs role dlc"
      by (auto simp: notebook_call_def predict_english_def predict_german_def)
    then show ?thesis using r
      by (auto simp: declared_hostnames_def create_model_kwargs_def englishModel_def
          germanModel_def dict_get_def)
  qed
  with r show ?thesis by blast
qed

theorem routing_field_on_every_invocation_witness:
  "(predict_english, Inr (PyDict [])) \<in> set (run_trace world_ok) \<and>
   is_invocation predict_english \<and>
   (Sm_create_model (create_model_kwargs example_role example_image), Inr (PyDict []))
      \<in> set (run_trace world_ok) \<and>
   routing_field predict_english = Some (PyStr ''englishModel'') \<and>
   routing_field predict_english
      \<in> set (declared_hostnames (create_model_kwargs example_role example_image))"
proof -
  have inv: "is_invocation predict_english"
    by (simp add: is_invocation_def predict_english_def)
  from routing_field_on_every_invocation[OF run_ok_events(4) inv] run_ok_events(1,4) inv
  show ?thesis by (auto simp: routing_predict)
qed

text \<open>
  C2. The deployment cell performs exactly three calls, create model, create endpoint
  configuration, create endpoint, in this order and with nothing in between: from any
  trace, the events it appends are an initial segment of these three, each sent after
  the one before it was answered; all three if the cell returns, and ending with the
  call that raised if it does not. The production variant of the endpoint configuration
  names the model \<open>multi-container-sentiment-model\<close>, the name under which the model is
  created, and the endpoint names the configuration \<open>multi-container-sentiment-config\<close>.
  In the whole run the calls on \<open>sm_client\<close> are no others than these three.
\<close>

theorem deployment_is_three_calls_in_order:
  assumes "deploy w role dlc tr = (r, tr')"
  shows "(\<exists>evs. tr' = tr @ evs \<and>
            prefix (map fst evs) (deployment_calls role dlc) \<and>
            (\<forall>i. Suc i < length evs \<longrightarrow> (\<exists>x. snd (evs ! i) = Inr x)) \<and>
            (r = Inr () \<longrightarrow> map fst evs = deployment_calls role dlc \<and> answered evs) \<and>
            (\<forall>e. r = Inl e \<longrightarrow> evs \<noteq> [] \<and> snd (last evs) = Inl e)) \<and>
         deployment_calls role dlc =
           [Sm_create_model (create_model_kwargs role dlc),
            Sm_create_endpoint_config create_endpoint_config_kwargs,
            Sm_create_endpoint create_endpoint_kwargs] \<and>
         map_of (create_model_kwargs role dlc) ''ModelName'' =
           Some (PyStr ''multi-container-sentiment-model'') \<and>
         map (\<lambda>v. dict_get v ''ModelName'') (variants create_endpoint_config_kwargs) =
           [Some (PyStr ''multi-container-sentiment-model'')] \<and>
         map_of create_endpoint_config_kwargs ''EndpointConfigName'' =
           Some (PyStr ''multi-container-sentiment-config'') \<and>
         map_of create_endpoint_kwargs ''EndpointConfigName'' =
           Some (PyStr ''multi-container-sentiment-config'') \<and>
         (\<exists>role' dlc'.
            prefix (map fst (sm_events (run_trace w))) (deployment_calls role' dlc') \<and>
            (\<forall>i. Suc i < length (sm_events (run_trace w)) \<longrightarrow>
               (\<exists>x. snd (sm_events (run_trace w) ! i) = Inr x)) \<and>
            (outcome w = Inr () \<longrightarrow>
               map fst (sm_events (run_trace w)) = deployment_calls role' dlc'))"
proof -
  obtain r0 tr0 where run: "notebook w [] = (r0, tr0)" by (cases "notebook w []")
  then have tr: "run_trace w = tr0" and r: "outcome w = r0"
    by (simp_all add: run_trace_def outcome_def)
  have "\<exists>role' dlc'. sm_progress role' dlc' tr0 \<and> (r0 = Inr () \<longrightarrow> sm_done role' dlc' tr0)"
  proof (cases r0)
    case (Inl e)
    from validD_err[OF notebook_sm _ run[unfolded Inl]] Inl show ?thesis by auto
  next
    case (Inr u)
    from validD_ok[OF notebook_sm _ run[unfolded Inr]] show ?thesis
      by (auto intro: sm_done_progress)
  qed
  then have whole: "\<exists>role' dlc'.
            prefix (map fst (sm_events (run_trace w))) (deployment_calls role' dlc') \<and>
            (\<forall>i. Suc i < length (sm_events (run_trace w)) \<longrightarrow>
               (\<exists>x. snd (sm_events (run_trace w) ! i) = Inr x)) \<and>
            (outcome w = Inr () \<longrightarrow>
               map fst (sm_events (run_trace w)) = deployment_calls role' dlc')"
    unfolding tr r sm_progress_def sm_done_def by blast
  have names: "map_of (create_model_kwargs role dlc) ''ModelName'' =
       Some (PyStr ''multi-container-sentiment-model'')"
    "map (\<lambda>v. dict_get v ''ModelName'') (variants create_endpoint_config_kwargs) =
       [Some (PyStr ''multi-container-sentiment-model'')]"
    "map_of create_endpoint_config_kwargs ''EndpointConfigName'' =
       Some (PyStr ''multi-container-sentiment-config'')"
    "map_of create_endpoint_kwargs ''EndpointConfigName'' =
       Some (PyStr ''multi-container-sentiment-config'')"
    by (simp_all add: create_model_kwargs_def create_endpoint_config_kwargs_def
        create_endpoint_kwargs_def variants_def dict_get_def deployment_name_def)
  have calls: "deployment_calls role dlc =
       [Sm_create_model (create_model_kwargs role dlc),
        Sm_create_endpoint_config create_endpoint_config_kwargs,
        Sm_create_endpoint create_endpoint_kwargs]"
    by (simp add: deployment_calls_def)
  show ?thesis
    by (intro conjI deploy_events[OF assms] calls names whole)
qed

theorem deployment_is_three_calls_in_order_witness:
  "deploy world_ok example_role example_image [] =
     (Inr (),
      [(Sm_create_model (create_model_kwargs example_role example_image), Inr (PyDict [])),
       (Sm_create_endpoint_config create_endpoint_config_kwargs, Inr (PyDict [])),
       (Sm_create_endpoint create_endpoint_kwargs, Inr (PyDict []))]) \<and>
   outcome world_ok = Inr () \<and>
   map fst (sm_events (run_trace world_ok)) =
     [Sm_create_model (create_model_kwargs example_role example_image),
      Sm_create_endpoint_config create_endpoint_config_kwargs,
      Sm_create_endpoint create_endpoint_kwargs] \<and>
   length (sm_events (run_trace world_ok)) = 3"
proof -
  from deployment_is_three_calls_in_order[OF deploy_ok] run_outcomes(1)
  obtain role' dlc' where
    "map fst (sm_events (run_trace world_ok)) = deployment_calls role' dlc'"
    by blast
  then have "length (sm_events (run_trace world_ok)) = 3"
    by (auto simp: deployment_calls_def dest: arg_cong[where f=length])
  with deploy_ok run_outcomes(1) sm_events_ok show ?thesis
    by (simp add: deployment_calls_def)
qed

text \<open>
  C3. Every \<open>create_model\<close> request of a run bundles exactly two container
  descriptors, with \<open>ContainerHostname\<close> \<open>englishModel\<close> and \<open>germanModel\<close>. Both
  carry as \<open>Image\<close> the same value, the answer of the image retrieval of this run, and
  an \<open>Environment\<close> with exactly the two entries \<open>HF_MODEL_ID\<close> and \<open>HF_TASK\<close>:
  the model identifier of the English, respectively the German model, and the task
  \<open>text-classification\<close> for both.
\<close>

theorem model_bundles_two_containers:
  assumes "(Sm_create_model kw, r) \<in> set (run_trace w)"
  shows "\<exists>region dlc e g.
     (Image_uris_retrieve (retrieve_kwargs region), Inr dlc) \<in> set (run_trace w) \<and>
     map_of kw ''Containers'' = Some (PyList [e, g]) \<and>
     e = englishModel dlc \<and> g = germanModel dlc \<and>
     dict_get e ''ContainerHostname'' = Some (PyStr ''englishModel'') \<and>
     dict_get g ''ContainerHostname'' = Some (PyStr ''germanModel'') \<and>
     dict_get e ''Image'' = Some dlc \<and>
     dict_get g ''Image'' = Some dlc \<and>
     dict_get e ''Environment'' = Some (PyDict
       [(''HF_MODEL_ID'', PyStr ''distilbert-base-uncased-finetuned-sst-2-english''),
        (''HF_TASK'', PyStr ''text-classification'')]) \<and>
     dict_get g ''Environment'' = Some (PyDict
       [(''HF_MODEL_ID'', PyStr ''oliverguhr/german-sentiment-bert''),
        (''HF_TASK'', PyStr ''text-classification'')])"
proof -
  from created_model_provenance[OF assms] obtain role region dlc where
    d: "deployed_with role region dlc (run_trace w)" and kw: "kw = create_model_kwargs role dlc"
    by blast
  from d have "(Image_uris_retrieve (retrieve_kwargs region), Inr dlc)
      \<in> set (image_events (run_trace w))"
    by (simp add: deployed_with_def resolved_from_def)
  then have "(Image_uris_retrieve (retrieve_kwargs region), Inr dlc) \<in> set (run_trace w)"
    by (simp add: image_events_def)
  then show ?thesis
    unfolding kw
    by (intro exI[of _ region] exI[of _ dlc] exI[of _ "englishModel dlc"]
        exI[of _ "germanModel dlc"])
      (simp add: create_model_kwargs_def englishModel_def germanModel_def dict_get_def)
qed

theorem model_bundles_two_containers_witness:
  "(Sm_create_model (create_model_kwargs example_role example_image), Inr (PyDict []))
      \<in> set (run_trace world_ok) \<and>
   map_of (create_model_kwargs example_role example_image) ''Containers'' =
      Some (PyList [englishModel example_image, germanModel example_image]) \<and>
   dict_get (englishModel example_image) ''ContainerHostname'' = Some (PyStr ''englishModel'') \<and>
   dict_get (germanModel example_image) ''ContainerHostname'' = Some (PyStr ''germanModel'') \<and>
   dict_get (englishModel example_image) ''Image'' = Some example_image \<and>
   dict_get (germanModel example_image) ''Image'' = Some example_image"
proof -
  from model_bundles_two_containers[OF run_ok_events(1)] obtain region dlc e g where
    c: "map_of (create_model_kwargs example_role example_image) ''Containers'' = Some (PyList [e, g])"
    and e: "e = englishModel dlc" "dict_get e ''ContainerHostname'' = Some (PyStr ''englishModel'')"
      "dict_get e ''Image'' = Some dlc"
    and g: "g = germanModel dlc" "dict_get g ''ContainerHostname'' = Some (PyStr ''germanModel'')"
      "dict_get g ''Image'' = Some dlc"
    by blast
  from c e(1) have dlc: "dlc = example_image"
    by (simp add: create_model_kwargs_def englishModel_def)
  from c e g run_ok_events(1) show ?thesis
    unfolding dlc by simp
qed

text \<open>
  C4. Every \<open>create_model\<close> request of a run passes the notebook's
  \<open>inferenceExecutionConfig\<close> unchanged as \<open>InferenceExecutionConfig\<close>, and its
  \<open>Mode\<close> is \<open>Direct\<close>, one of the two modes \<open>Direct\<close> and \<open>Serial\<close>.
\<close>

theorem execution_mode_is_direct:
  assumes "(Sm_create_model kw, r) \<in> set (run_trace w)"
  shows "map_of kw ''InferenceExecutionConfig'' = Some inferenceExecutionConfig \<and>
     inferenceExecutionConfig = PyDict [(''Mode'', PyStr ''Direct'')] \<and>
     dict_get inferenceExecutionConfig ''Mode'' = Some (PyStr ''Direct'') \<and>
     PyStr ''Direct'' \<in> set inference_execution_modes"
proof -
  from run_calls[OF assms] obtain role dlc where "kw = create_model_kwargs role dlc"
    by (auto simp: notebook_call_def predict_english_def predict_german_def)
  then show ?thesis
    by (simp add: create_model_kwargs_def inferenceExecutionConfig_def dict_get_def
        inference_execution_modes_def)
qed

theorem execution_mode_is_direct_witness:
  "(Sm_create_model (create_model_kwargs example_role example_image), Inr (PyDict []))
      \<in> set (run_trace world_ok) \<and>
   map_of (create_model_kwargs example_role example_image) ''InferenceExecutionConfig'' =
      Some (PyDict [(''Mode'', PyStr ''Direct'')]) \<and>
   dict_get inferenceExecutionConfig ''Mode'' = Some (PyStr ''Direct'')"
  using execution_mode_is_direct[OF run_ok_events(1)] run_ok_events(1)
  by simp

text \<open>
  C5, as the code has it. The only exception handled is a \<open>ValueError\<close> raised by
  \<open>get_execution_role\<close>, whatever its message: the run then goes on with
  \<open>boto3.client('iam')\<close> and \<open>iam.get_role(RoleName='sagemaker_execution_role')\<close>,
  the role is the entry \<open>['Role']['Arn']\<close> of that answer, the cell continues after the
  \<open>try\<close>, and that role is the \<open>ExecutionRoleArn\<close> of the model. Nothing else is
  handled: every other failing call, a \<open>get_execution_role\<close> that raises another
  exception included, is the last call of the run and its exception is the outcome of
  the run; so is the \<open>KeyError\<close> or \<open>TypeError\<close> of a lookup in the answer of
  \<open>iam.get_role\<close> or of \<open>invoke_endpoint\<close>, and the \<open>AssertionError\<close> of the
  version check.
\<close>

theorem only_value_error_of_role_lookup_is_handled:
  "(\<forall>msg. (Get_execution_role, Inl (ValueError msg)) \<in> set (run_trace w) \<longrightarrow>
      (\<exists>pre a post1.
         run_trace w =
           pre @ (Get_execution_role, Inl (ValueError msg)) # (Boto3_client ''iam'', a) # post1 \<and>
         (\<forall>x. a = Inr x \<longrightarrow>
            (\<exists>b post2.
               post1 =
                 (Iam_get_role [(''RoleName'', PyStr ''sagemaker_execution_role'')], b) # post2 \<and>
               (\<forall>resp rd role.
                  b = Inr resp \<and> dict_get resp ''Role'' = Some rd \<and>
                  dict_get rd ''Arn'' = Some role \<longrightarrow>
                  (\<exists>bucket c post3.
                     post2 = (Sagemaker_Session [(''default_bucket'', bucket)], c) # post3)))))) \<and>
   (\<forall>role region tr' msg.
      permissions w [] = (Inr (role, region), tr') \<and>
      (Get_execution_role, Inl (ValueError msg)) \<in> set tr' \<longrightarrow>
      (\<exists>resp rd.
         (Iam_get_role [(''RoleName'', PyStr ''sagemaker_execution_role'')], Inr resp) \<in> set tr' \<and>
         dict_get resp ''Role'' = Some rd \<and> dict_get rd ''Arn'' = Some role)) \<and>
   (\<forall>msg kw r.
      (Get_execution_role, Inl (ValueError msg)) \<in> set (run_trace w) \<and>
      (Sm_create_model kw, r) \<in> set (run_trace w) \<longrightarrow>
      (\<exists>resp rd role.
         (Iam_get_role [(''RoleName'', PyStr ''sagemaker_execution_role'')], Inr resp)
            \<in> set (run_trace w) \<and>
         dict_get resp ''Role'' = Some rd \<and> dict_get rd ''Arn'' = Some role \<and>
         map_of kw ''ExecutionRoleArn'' = Some role)) \<and>
   (\<forall>c e.
      (c, Inl e) \<in> set (run_trace w) \<and> \<not> (c = Get_execution_role \<and> (\<exists>msg. e = ValueError msg)) \<longrightarrow>
      outcome w = Inl e \<and> last (run_trace w) = (c, Inl e)) \<and>
   (\<forall>kw resp e.
      (Iam_get_role kw, Inr resp) \<in> set (run_trace w) \<and>
      fst (then_do (subscript resp ''Role'') (\<lambda>r'. subscript r' ''Arn'') []) = Inl e \<longrightarrow>
      outcome w = Inl e \<and> last (run_trace w) = (Iam_get_role kw, Inr resp)) \<and>
   (\<forall>kw resp e.
      (Invoke_endpoint kw, Inr resp) \<in> set (run_trace w) \<and>
      fst (subscript resp ''Body'' []) = Inl e \<longrightarrow>
      outcome w = Inl e \<and> last (run_trace w) = (Invoke_endpoint kw, Inr resp)) \<and>
   (\<not> str_ge (sagemaker_version w) ''2.75.0'' \<longrightarrow> outcome w = Inl AssertionError)"
proof -
  note old = fallback_role_and_failing_calls[of w]
  have a: "\<exists>pre a post1.
         run_trace w =
           pre @ (Get_execution_role, Inl (ValueError msg)) # (Boto3_client ''iam'', a) # post1 \<and>
         (\<forall>x. a = Inr x \<longrightarrow>
            (\<exists>b post2.
               post1 =
                 (Iam_get_role [(''RoleName'', PyStr ''sagemaker_execution_role'')], b) # post2 \<and>
               (\<forall>resp rd role.
                  b = Inr resp \<and> dict_get resp ''Role'' = Some rd \<and>
                  dict_get rd ''Arn'' = Some role \<longrightarrow>
                  (\<exists>bucket c post3.
                     post2 = (Sagemaker_Session [(''default_bucket'', bucket)], c) # post3))))"
    if "(Get_execution_role, Inl (ValueError msg)) \<in> set (run_trace w)" for msg
  proof -
    from value_error_is_caught[OF that] obtain pre post where
      tr: "run_trace w = pre @ (Get_execution_role, Inl (ValueError msg)) # post"
      and f: "fallback_follows post" by blast
    from fallback_follows_unfold[OF f] obtain a post1 where
      p: "post = (Boto3_client ''iam'', a) # post1" and
      rest: "\<forall>x. a = Inr x \<longrightarrow>
            (\<exists>b post2.
               post1 =
                 (Iam_get_role [(''RoleName'', PyStr ''sagemaker_execution_role'')], b) # post2 \<and>
               (\<forall>resp rd role.
                  b = Inr resp \<and> dict_get resp ''Role'' = Some rd \<and>
                  dict_get rd ''Arn'' = Some role \<longrightarrow>
                  (\<exists>bucket c post3.
                     post2 = (Sagemaker_Session [(''default_bucket'', bucket)], c) # post3)))"
      by blast
    show ?thesis
      unfolding tr p by (intro exI[of _ pre] exI[of _ a] exI[of _ post1] conjI refl rest)
  qed
  have b1: "outcome w = Inl e \<and> last (run_trace w) = (Iam_get_role kw, Inr resp)"
    if "(Iam_get_role kw, Inr resp) \<in> set (run_trace w) \<and>
      fst (then_do (subscript resp ''Role'') (\<lambda>r'. subscript r' ''Arn'') []) = Inl e"
    for kw resp e
  proof -
    from that have "local_error (Iam_get_role kw) resp = Some e"
      by (simp add: local_error_def)
    from local_error_is_last[OF conjunct1[OF that] this] show ?thesis by simp
  qed
  have b2: "outcome w = Inl e \<and> last (run_trace w) = (Invoke_endpoint kw, Inr resp)"
    if "(Invoke_endpoint kw, Inr resp) \<in> set (run_trace w) \<and>
      fst (subscript resp ''Body'' []) = Inl e"
    for kw resp e
  proof -
    from that have "local_error (Invoke_endpoint kw) resp = Some e"
      by (simp add: local_error_def)
    from local_error_is_last[OF conjunct1[OF that] this] show ?thesis by simp
  qed
  have c: "outcome w = Inl AssertionError" if "\<not> str_ge (sagemaker_version w) ''2.75.0''"
    using that notebook_stops[of w] by (simp add: str_ge_def str_lt_iff not_le outcome_def)
  from a b1 b2 c old show ?thesis by blast
qed

theorem only_value_error_of_role_lookup_is_handled_witness:
  "(Get_execution_role, Inl (ValueError ''The current AWS identity is not a role''))
      \<in> set (run_trace world_no_role) \<and>
   take 4 (drop 2 (run_trace world_no_role)) =
     [(Get_execution_role, Inl (ValueError ''The current AWS identity is not a role'')),
      (Boto3_client ''iam'', Inr (PyDict [])),
      (Iam_get_role [(''RoleName'', PyStr ''sagemaker_execution_role'')],
         Inr (PyDict [(''Role'', PyDict [(''Arn'', example_fallback_role)])])),
      (Sagemaker_Session [(''default_bucket'', PyStr ''sagemaker-us-east-1-123456789012'')],
         Inr (PyDict []))] \<and>
   fst (permissions world_no_role []) = Inr (example_fallback_role, PyStr ''us-east-1'') \<and>
   (Get_execution_role, Inl (ValueError ''The current AWS identity is not a role''))
      \<in> set (snd (permissions world_no_role [])) \<and>
   (Iam_get_role [(''RoleName'', PyStr ''sagemaker_execution_role'')],
      Inr (PyDict [(''Role'', PyDict [(''Arn'', example_fallback_role)])]))
      \<in> set (run_trace world_no_role) \<and>
   (Sm_create_model (create_model_kwargs example_fallback_role example_image), Inr (PyDict []))
      \<in> set (run_trace world_no_role) \<and>
   map_of (create_model_kwargs example_fallback_role example_image) ''ExecutionRoleArn'' =
      Some example_fallback_role \<and>
   (Get_execution_role, Inl (OtherException ''ClientError'')) \<in> set (run_trace world_denied) \<and>
   outcome world_denied = Inl (OtherException ''ClientError'') \<and>
   last (run_trace world_denied) = (Get_execution_role, Inl (OtherException ''ClientError'')) \<and>
   (Iam_get_role [(''RoleName'', PyStr ''sagemaker_execution_role'')],
      Inr (PyDict [(''Role'', PyDict [])])) \<in> set (run_trace world_no_arn) \<and>
   outcome world_no_arn = Inl (KeyError ''Arn'') \<and>
   (Invoke_endpoint (invoke_kwargs world_no_body ''englishModel'' english_payload), Inr (PyDict []))
      \<in> set (run_trace world_no_body) \<and>
   outcome world_no_body = Inl (KeyError ''Body'') \<and>
   \<not> str_ge (sagemaker_version world_2_100) ''2.75.0'' \<and>
   outcome world_2_100 = Inl AssertionError"
proof -
  have arn: "map_of (create_model_kwargs example_fallback_role example_image)
      ''ExecutionRoleArn'' = Some example_fallback_role"
    by (simp add: create_model_kwargs_def)
  from only_value_error_of_role_lookup_is_handled[of world_denied] run_denied_events
  have denied: "outcome world_denied = Inl (OtherException ''ClientError'') \<and>
      last (run_trace world_denied) = (Get_execution_role, Inl (OtherException ''ClientError''))"
    by blast
  from only_value_error_of_role_lookup_is_handled[of world_no_arn] run_no_arn_events subscript_examples(2)
  have no_arn: "outcome world_no_arn = Inl (KeyError ''Arn'')"
    by blast
  from only_value_error_of_role_lookup_is_handled[of world_no_body] run_no_body_events subscript_examples(1)
  have no_body: "outcome world_no_body = Inl (KeyError ''Body'')"
    by blast
  have old: "\<not> str_ge (sagemaker_version world_2_100) ''2.75.0''"
    by (simp add: world_2_100_def world_ok_def str_ge_def)
  with only_value_error_of_role_lookup_is_handled[of world_2_100] have assert: "outcome world_2_100 = Inl AssertionError"
    by blast
  from permissions_no_role run_no_role_events run_no_role_fallback run_denied_events
    run_no_arn_events run_no_body_events arn denied no_arn no_body old assert
  show ?thesis by simp
qed

text \<open>
  The claim C5 as it is worded fails: in this world \<open>get_execution_role\<close> fails with
  an exception that is not a \<open>ValueError\<close>; no role is looked up in IAM, no model is
  created, and the run ends with that exception.
\<close>

theorem role_lookup_failure_not_always_handled:
  "(Get_execution_role, Inl (OtherException ''ClientError'')) \<in> set (run_trace world_denied) \<and>
   outcome world_denied = Inl (OtherException ''ClientError'') \<and>
   role_events (run_trace world_denied) =
     [(Get_execution_role, Inl (OtherException ''ClientError''))] \<and>
   model_events (run_trace world_denied) = []"
  by (simp add: run_trace_def outcome_def run_simps world_denied_simps role_events_def
      model_events_def is_role_lookup_def is_create_model_def)

text \<open>
  C6. The load test is one sequential loop of 1000 passes; each pass sends one request
  routed to \<open>englishModel\<close> and then one routed to \<open>germanModel\<close>. The requests it
  issues are an initial segment of that alternation, a request is sent only after every
  earlier one was answered, and a loop that runs to its end has sent 2000 requests,
  1000 to each container.
\<close>

theorem load_test_alternates:
  assumes "load_test w tr = (r, tr')"
  shows "\<exists>evs. tr' = tr @ evs \<and>
     prefix (map fst evs) (concat (replicate 1000 [predict_english, predict_german])) \<and>
     (\<forall>i. i < length evs \<longrightarrow>
        routing_field (fst (evs ! i)) =
          Some (PyStr (if even i then ''englishModel'' else ''germanModel''))) \<and>
     (\<forall>i. Suc i < length evs \<longrightarrow> (\<exists>x. snd (evs ! i) = Inr x)) \<and>
     (r = Inr () \<longrightarrow>
        map fst evs = concat (replicate 1000 [predict_english, predict_german]) \<and>
        length evs = 2000 \<and>
        length (filter (\<lambda>c. routing_field c = Some (PyStr ''englishModel'')) (map fst evs)) = 1000 \<and>
        length (filter (\<lambda>c. routing_field c = Some (PyStr ''germanModel'')) (map fst evs)) = 1000) \<and>
     (\<forall>e. r = Inl e \<longrightarrow> evs \<noteq> [] \<and> snd (last evs) = Inl e)"
proof -
  let ?alt = "concat (replicate 1000 [predict_english, predict_german])"
  from assms have "for_in (py_range 1000) (round_trip w) tr = (r, tr')"
    by (simp add: load_test_round_trip)
  from for_in_round_trip[OF this] obtain evs where
    tr': "tr' = tr @ evs" and spec: "loop_spec 1000 r evs"
    by (auto simp: py_range_def)
  from spec have pre: "prefix (map fst evs) ?alt"
    and seq: "\<forall>i. Suc i < length evs \<longrightarrow> (\<exists>x. snd (evs ! i) = Inr x)"
    and ok: "r = Inr () \<Longrightarrow> map fst evs = ?alt"
    and err: "\<forall>e. r = Inl e \<longrightarrow> evs \<noteq> [] \<and> snd (last evs) = Inl e"
    by (simp_all add: loop_spec_def)
  have alt: "routing_field (fst (evs ! i)) =
      Some (PyStr (if even i then ''englishModel'' else ''germanModel''))"
    if i: "i < length evs" for i
  proof -
    from pre obtain zs where zs: "?alt = map fst evs @ zs" by (auto simp: prefix_def)
    have "length ?alt = 2000" by (simp add: length_concat sum_list_replicate)
    with zs i have i2: "i < 2 * 1000"
      by (metis length_append length_map less_le_trans le_add1 mult_2 numeral_Bit0)
    from zs i have "fst (evs ! i) = ?alt ! i" by (simp add: nth_append)
    also have "\<dots> = (if even i then predict_english else predict_german)"
      using i2 by (rule alternating_nth)
    finally show ?thesis by (simp add: routing_predict)
  qed
  have cnt: "length evs = 2000 \<and>
        length (filter (\<lambda>c. routing_field c = Some (PyStr ''englishModel'')) (map fst evs)) = 1000 \<and>
        length (filter (\<lambda>c. routing_field c = Some (PyStr ''germanModel'')) (map fst evs)) = 1000"
    if "r = Inr ()"
  proof -
    from ok[OF that] have m: "map fst evs = ?alt" .
    then have "length evs = length ?alt" by (metis length_map)
    then have "length evs = 2000" by (simp add: length_concat sum_list_replicate)
    then show ?thesis
      unfolding m by (simp add: alternating_count routing_predict)
  qed
  from tr' pre alt seq ok cnt err show ?thesis by blast
qed

theorem load_test_alternates_witness:
  "fst (load_test world_ok []) = Inr () \<and>
   length (snd (load_test world_ok [])) = 2000 \<and>
   length (filter (\<lambda>c. routing_field c = Some (PyStr ''englishModel''))
      (map fst (snd (load_test world_ok [])))) = 1000 \<and>
   length (filter (\<lambda>c. routing_field c = Some (PyStr ''germanModel''))
      (map fst (snd (load_test world_ok [])))) = 1000"
proof -
  have run: "load_test world_ok [] = (fst (load_test world_ok []), snd (load_test world_ok []))"
    by simp
  have ok: "fst (load_test world_ok []) = Inr ()"
    by (simp add: load_test_ok)
  from load_test_alternates[OF run] obtain evs where
    evs: "snd (load_test world_ok []) = [] @ evs" and
    cnt: "fst (load_test world_ok []) = Inr () \<longrightarrow>
        map fst evs = concat (replicate 1000 [predict_english, predict_german]) \<and>
        length evs = 2000 \<and>
        length (filter (\<lambda>c. routing_field c = Some (PyStr ''englishModel'')) (map fst evs)) = 1000 \<and>
        length (filter (\<lambda>c. routing_field c = Some (PyStr ''germanModel'')) (map fst evs)) = 1000"
    by blast
  from evs have "evs = snd (load_test world_ok [])" by simp
  with cnt ok show ?thesis by blast
qed

text \<open>
  C8. The assertion of the setup compares the SDK version with \<open>2.75.0\<close> as strings:
  the run goes past the check exactly if the version string is lexicographically at
  least \<open>2.75.0\<close>, and otherwise stops with \<open>AssertionError\<close> before any call is made.
  The version string \<open>2.100.0\<close> does not pass, although 2.100.0 is the later version
  when the components are read as numbers.
\<close>

theorem version_check_is_lexicographic:
  "(check_version w tr = (Inr (), tr) \<longleftrightarrow> ''2.75.0'' \<le> sagemaker_version w) \<and>
   (check_version w tr = (Inl AssertionError, tr) \<longleftrightarrow> sagemaker_version w < ''2.75.0'') \<and>
   (run_trace w \<noteq> [] \<longleftrightarrow> ''2.75.0'' \<le> sagemaker_version w) \<and>
   (sagemaker_version w < ''2.75.0'' \<longrightarrow> notebook w [] = (Inl AssertionError, [])) \<and>
   (sagemaker_version w = ''2.100.0'' \<longrightarrow>
      numeric_version ''2.75.0'' \<le> numeric_version (sagemaker_version w) \<and>
      outcome w = Inl AssertionError \<and> run_trace w = [])"
proof -
  have a: "sagemaker_version w < ''2.75.0'' \<Longrightarrow> notebook w [] = (Inl AssertionError, [])"
    by (rule notebook_stops) simp
  have b: "''2.100.0'' < ''2.75.0''" by (simp add: less_char_def)
  show ?thesis
    using notebook_starts[of w] a b
    by (auto simp: check_version_cases run_trace_def outcome_def numeric_version_examples not_le)
qed

theorem version_check_is_lexicographic_witness:
  "sagemaker_version world_2_100 = ''2.100.0'' \<and>
   sagemaker_version world_2_100 < ''2.75.0'' \<and>
   check_version world_2_100 [] = (Inl AssertionError, []) \<and>
   notebook world_2_100 [] = (Inl AssertionError, []) \<and>
   numeric_version ''2.75.0'' \<le> numeric_version (sagemaker_version world_2_100) \<and>
   outcome world_2_100 = Inl AssertionError \<and>
   run_trace world_2_100 = []"
proof -
  have v: "sagemaker_version world_2_100 = ''2.100.0''"
    by (simp add: world_2_100_def world_ok_def)
  have lt: "sagemaker_version world_2_100 < ''2.75.0''"
    by (simp add: v less_char_def)
  from version_check_is_lexicographic[of world_2_100 "[]"] v lt
  show ?thesis by simp
qed

text \<open>
  C9. The image reference is resolved at most once in a run and exactly once in a run
  that completes, for instance type \<open>ml.c5.xlarge\<close>; both container descriptors of the
  model carry the answer of that one retrieval. The endpoint configuration asks for one
  instance of type \<open>ml.c5.4xlarge\<close>, which is another type.
\<close>

theorem image_resolved_once_for_other_instance_type:
  "length (image_events (run_trace w)) \<le> 1 \<and>
   (outcome w = Inr () \<longrightarrow> length (image_events (run_trace w)) = 1) \<and>
   (\<forall>kw r. (Image_uris_retrieve kw, r) \<in> set (run_trace w) \<longrightarrow>
      map_of kw ''instance_type'' = Some (PyStr ''ml.c5.xlarge'')) \<and>
   (\<forall>kw r. (Sm_create_model kw, r) \<in> set (run_trace w) \<longrightarrow>
      (\<exists>region dlc.
         image_events (run_trace w) = [(Image_uris_retrieve (retrieve_kwargs region), Inr dlc)] \<and>
         map_of kw ''Containers'' = Some (PyList [englishModel dlc, germanModel dlc]) \<and>
         dict_get (englishModel dlc) ''Image'' = Some dlc \<and>
         dict_get (germanModel dlc) ''Image'' = Some dlc)) \<and>
   (\<forall>kw r. (Sm_create_endpoint_config kw, r) \<in> set (run_trace w) \<longrightarrow>
      (\<exists>v. variants kw = [v] \<and>
         dict_get v ''InstanceType'' = Some (PyStr ''ml.c5.4xlarge'') \<and>
         dict_get v ''InitialInstanceCount'' = Some (PyInt 1))) \<and>
   instance_type \<noteq> ''ml.c5.xlarge''"
proof (intro conjI allI impI)
  show "length (image_events (run_trace w)) \<le> 1"
    using run_provenance[of w]
    by (auto simp: provenance_def before_deploy_def deployed_with_def resolved_from_def)
  show "length (image_events (run_trace w)) = 1" if "outcome w = Inr ()"
    using run_provenance_ok[OF that] by (auto simp: deployed_with_def resolved_from_def)
  show "map_of kw ''instance_type'' = Some (PyStr ''ml.c5.xlarge'')"
    if "(Image_uris_retrieve kw, r) \<in> set (run_trace w)" for kw r
    using run_calls[OF that]
    by (auto simp: notebook_call_def retrieve_kwargs_def predict_english_def predict_german_def)
  show "\<exists>region dlc.
         image_events (run_trace w) = [(Image_uris_retrieve (retrieve_kwargs region), Inr dlc)] \<and>
         map_of kw ''Containers'' = Some (PyList [englishModel dlc, germanModel dlc]) \<and>
         dict_get (englishModel dlc) ''Image'' = Some dlc \<and>
         dict_get (germanModel dlc) ''Image'' = Some dlc"
    if "(Sm_create_model kw, r) \<in> set (run_trace w)" for kw r
  proof -
    from created_model_provenance[OF that] obtain role region dlc where
      d: "deployed_with role region dlc (run_trace w)" and kw: "kw = create_model_kwargs role dlc"
      by blast
    from d have "image_events (run_trace w) =
        [(Image_uris_retrieve (retrieve_kwargs region), Inr dlc)]"
      by (simp add: deployed_with_def resolved_from_def)
    then show ?thesis
      unfolding kw
      by (intro exI[of _ region] exI[of _ dlc])
        (simp add: create_model_kwargs_def englishModel_def germanModel_def dict_get_def)
  qed
  show "\<exists>v. variants kw = [v] \<and>
         dict_get v ''InstanceType'' = Some (PyStr ''ml.c5.4xlarge'') \<and>
         dict_get v ''InitialInstanceCount'' = Some (PyInt 1)"
    if "(Sm_create_endpoint_config kw, r) \<in> set (run_trace w)" for kw r
  proof -
    from run_calls[OF that] have "kw = create_endpoint_config_kwargs"
      by (auto simp: notebook_call_def predict_english_def predict_german_def)
    then show ?thesis
      by (simp add: create_endpoint_config_kwargs_def variants_def dict_get_def instance_type_def)
  qed
  show "instance_type \<noteq> ''ml.c5.xlarge''"
    by (simp add: instance_type_def)
qed

theorem image_resolved_once_for_other_instance_type_witness:
  "outcome world_ok = Inr () \<and>
   length (image_events (run_trace world_ok)) = 1 \<and>
   (Image_uris_retrieve (retrieve_kwargs (PyStr ''us-east-1'')), Inr example_image)
      \<in> set (run_trace world_ok) \<and>
   map_of (retrieve_kwargs (PyStr ''us-east-1'')) ''instance_type'' = Some (PyStr ''ml.c5.xlarge'') \<and>
   (Sm_create_model (create_model_kwargs example_role example_image), Inr (PyDict []))
      \<in> set (run_trace world_ok) \<and>
   (Sm_create_endpoint_config create_endpoint_config_kwargs, Inr (PyDict []))
      \<in> set (run_trace world_ok) \<and>
   map (\<lambda>v. dict_get v ''InstanceType'') (variants create_endpoint_config_kwargs) =
      [Some (PyStr ''ml.c5.4xlarge'')]"
proof -
  note t = image_resolved_once_for_other_instance_type[of world_ok]
  from t run_outcomes(1) have one: "length (image_events (run_trace world_ok)) = 1"
    by blast
  from t run_ok_events(3)
  have x: "map_of (retrieve_kwargs (PyStr ''us-east-1'')) ''instance_type'' = Some (PyStr ''ml.c5.xlarge'')"
    by blast
  from t run_ok_events(2) obtain v where
    "variants create_endpoint_config_kwargs = [v]"
    "dict_get v ''InstanceType'' = Some (PyStr ''ml.c5.4xlarge'')"
    by blast
  then have "map (\<lambda>v. dict_get v ''InstanceType'') (variants create_endpoint_config_kwargs) =
      [Some (PyStr ''ml.c5.4xlarge'')]"
    by simp
  with one x run_outcomes(1) run_ok_events(1,2,3) show ?thesis by simp
qed

text \<open>
  C10. The payload of a data-plane call is fixed by its target: a call routed to
  \<open>englishModel\<close> carries \<open>english_payload\<close> and a call routed to \<open>germanModel\<close>
  carries \<open>german_payload\<close>, serialised with \<open>json.dumps\<close> in the boto3 calls and
  as it is in the predictor calls, in every run and at every pass of the load test.
\<close>

theorem payload_fixed_by_target:
  assumes "(c, r) \<in> set (run_trace w)" and "is_invocation c"
  shows "(routing_field c = Some (PyStr ''englishModel'') \<longrightarrow>
            payload_sent c = payload_as_sent w c english_payload) \<and>
         (routing_field c = Some (PyStr ''germanModel'') \<longrightarrow>
            payload_sent c = payload_as_sent w c german_payload)"
proof -
  from run_calls[OF assms(1)] assms(2)
  have "c = Invoke_endpoint (invoke_kwargs w ''englishModel'' english_payload) \<or>
        c = Invoke_endpoint (invoke_kwargs w ''germanModel'' german_payload) \<or>
        c = predict_english \<or> c = predict_german"
    by (auto simp: notebook_call_def is_invocation_def)
  then show ?thesis
    by (auto simp: routing_field_def payload_sent_def payload_as_sent_def invoke_kwargs_def
        predict_english_def predict_german_def)
qed

theorem payload_fixed_by_target_witness:
  "(Invoke_endpoint (invoke_kwargs world_ok ''germanModel'' german_payload),
      Inr (PyDict [(''Body'', PyStr ''POSITIVE'')])) \<in> set (run_trace world_ok) \<and>
   is_invocation (Invoke_endpoint (invoke_kwargs world_ok ''germanModel'' german_payload)) \<and>
   routing_field (Invoke_endpoint (invoke_kwargs world_ok ''germanModel'' german_payload)) =
      Some (PyStr ''germanModel'') \<and>
   payload_sent (Invoke_endpoint (invoke_kwargs world_ok ''germanModel'' german_payload)) =
      Some (PyStr (json_text german_payload)) \<and>
   (predict_english, Inr (PyDict [])) \<in> set (run_trace world_ok) \<and>
   is_invocation predict_english \<and>
   routing_field predict_english = Some (PyStr ''englishModel'') \<and>
   payload_sent predict_english = Some english_payload"
proof -
  let ?g = "Invoke_endpoint (invoke_kwargs world_ok ''germanModel'' german_payload)"
  have ig: "is_invocation ?g" and ie: "is_invocation predict_english"
    by (simp_all add: is_invocation_def predict_english_def)
  have rg: "routing_field ?g = Some (PyStr ''germanModel'')"
    by (simp add: routing_field_def invoke_kwargs_def)
  from payload_fixed_by_target[OF run_ok_events(5) ig] rg
  have pg: "payload_sent ?g = Some (PyStr (json_text german_payload))"
    by (simp add: payload_as_sent_def world_ok_simps)
  from payload_fixed_by_target[OF run_ok_events(4) ie] routing_predict(1)
  have pe: "payload_sent predict_english = Some english_payload"
    by (simp add: payload_as_sent_def predict_english_def)
  from run_ok_events(4,5) ig ie rg routing_predict(1) pg pe show ?thesis by simp
qed

end
